theory Spec2Isabelle
  imports Main "HOL-Library.Char_ord" "HOL-Library.List_Lexorder"
begin

section \<open>The request builder of go-www (request.go)\<close>

text \<open>
  The file \<^verbatim>\<open>request.go\<close> is a fluent builder over Go's \<^verbatim>\<open>net/http\<close>: configuration
  methods mutate a \<^verbatim>\<open>*Request\<close> and return it, \<^verbatim>\<open>Do\<close> builds one \<^verbatim>\<open>http.Request\<close> and
  hands it to the injected client. The model passes the builder explicitly: every method
  takes the builder and returns the updated one. Calls into the standard library
  (\<^verbatim>\<open>mime/multipart\<close>, \<^verbatim>\<open>net/http\<close>, \<^verbatim>\<open>path/filepath\<close>) whose outcome the builder cannot
  determine are taken from a record \<open>lib\<close> of collaborators, so that every error branch
  of the source is a branch of the model.

  The file holds two listings of \<^verbatim>\<open>request.go\<close>. They differ in the response shell of
  \<^verbatim>\<open>Do\<close> and in when \<^verbatim>\<open>AttachFiles\<close> closes its files; the model follows the first listing
  and gives \<^verbatim>\<open>Do\<close> and \<^verbatim>\<open>AttachFiles\<close> of the second listing beside it.
\<close>

subsection \<open>Errors\<close>

text \<open>
  \<^verbatim>\<open>ErrorEmptyListValues\<close> is the package's sentinel; \<open>ErrorsNew\<close> is an error made on
  the spot by \<^verbatim>\<open>errors.New\<close>; \<open>External\<close> is an error value returned by a collaborator
  (\<^verbatim>\<open>json.Marshal\<close>, \<^verbatim>\<open>io.Copy\<close>, \<^verbatim>\<open>http.NewRequest\<close>, the envelope writer, the client).
  A Go \<^verbatim>\<open>error\<close> variable is an \<open>error option\<close>, \<open>None\<close> for \<^verbatim>\<open>nil\<close>.
\<close>

datatype error = ErrorEmptyListValues | ErrorsNew string | External string

type_synonym bytes = string

subsection \<open>Byte sources and the multipart envelope\<close>

text \<open>
  What a caller-supplied \<^verbatim>\<open>io.Reader\<close> does when it is drained by \<^verbatim>\<open>io.Copy\<close>: the bytes
  it delivers, and the error (if any) that ends the copy after them.
\<close>

record source =
  payload :: bytes
  fault :: "error option"

text \<open>
  A part of the envelope, as the two calls of the source start it:
  \<^verbatim>\<open>CreateFormFile(writer, field, fileName, contentType...)\<close> and
  \<^verbatim>\<open>writer.CreateFormField(field)\<close>; the last component is what has been written into
  the part so far.
\<close>

datatype part =
    FormFile string string "string list" bytes
  | FormField string bytes

fun part_write :: "part \<Rightarrow> bytes \<Rightarrow> part" where
  "part_write (FormFile field fileName contentType written) bs =
     FormFile field fileName contentType (written @ bs)"
| "part_write (FormField field written) bs = FormField field (written @ bs)"

text \<open>
  \<^verbatim>\<open>multipart.Writer\<close> over its \<^verbatim>\<open>bytes.Buffer\<close>: the boundary, the parts written into the
  buffer so far, and whether \<^verbatim>\<open>Close\<close> has written the closing delimiter.
\<close>

record writer =
  boundary :: string
  parts :: "part list"
  wclosed :: bool

text \<open>
  The values of \<^verbatim>\<open>io.Reader\<close> a caller passes in, by what the type assertion
  \<^verbatim>\<open>reader.(*os.File)\<close> distinguishes: an \<^verbatim>\<open>*os.File\<close> (its name and what reading it
  gives) and any other reader. A \<^verbatim>\<open>nil\<close> reader is \<open>None\<close> of \<open>reader option\<close>; an
  \<^verbatim>\<open>*os.File\<close> is an open file, not a \<^verbatim>\<open>nil\<close> pointer. Every reader value stands for an
  object of its own: no two arguments share one underlying stream.
\<close>

datatype reader =
    OsFile string source
  | Stream source

fun source_of :: "reader \<Rightarrow> source" where
  "source_of (OsFile name src) = src"
| "source_of (Stream src) = src"

text \<open>
  What the field \<^verbatim>\<open>body\<close> of the builder can hold: a reader of the caller's
  (\<^verbatim>\<open>WithFile\<close>), or one the builder made: \<^verbatim>\<open>strings.NewReader\<close>, \<^verbatim>\<open>bytes.NewReader\<close>, or
  the \<^verbatim>\<open>bytes.Buffer\<close> an envelope was written into.
\<close>

datatype body_reader =
    Given reader
  | StringsReader bytes
  | BytesReader bytes
  | BytesBuffer writer

text \<open>
  \<^verbatim>\<open>interface{}\<close> values of the lists given to \<^verbatim>\<open>AttachFiles\<close>, by what the two type
  assertions of the loop distinguish: an \<^verbatim>\<open>io.Reader\<close>, a \<^verbatim>\<open>string\<close>, anything else.
\<close>

datatype iface = IReader reader | IString string | IOther

subsection \<open>net/http values\<close>

record cookie =
  cname :: string
  cvalue :: string

type_synonym header = "string \<rightharpoonup> string list"

record http_request =
  Method :: string
  URL :: string
  RawQuery :: string
  Header :: header
  Body :: "body_reader option"

record http_response =
  StatusCode :: nat
  ResponseBody :: bytes

text \<open>The wrapper \<^verbatim>\<open>Response{Response, err, content}\<close> that \<^verbatim>\<open>Do\<close> returns.\<close>

record response =
  Response :: "http_response option"
  resp_err :: "error option"
  content :: "bytes option"

text \<open>
  The builder. \<open>client\<close> is the injected client's \<^verbatim>\<open>Do\<close>: the transport response and
  the transport error it returns for a request.
\<close>

record request =
  Request :: "http_request option"
  client :: "http_request \<Rightarrow> http_response option \<times> error option"
  err :: "error option"
  body :: "body_reader option"
  params :: string
  mime :: string
  cookies :: "cookie list"

subsection \<open>Collaborators\<close>

text \<open>
  What the standard library decides: the boundary \<^verbatim>\<open>multipart.NewWriter\<close> draws,
  \<^verbatim>\<open>filepath.Base\<close>, whether starting a part fails (given the writer and the arguments of
  the call), whether \<^verbatim>\<open>http.NewRequest\<close> rejects a method and URI,
  \<^verbatim>\<open>textproto.CanonicalMIMEHeaderKey\<close>, and the \<^verbatim>\<open>name=value\<close> text \<^verbatim>\<open>AddCookie\<close> writes for
  a cookie.
\<close>

record lib =
  new_boundary :: string
  Base :: "string \<Rightarrow> string"
  form_file_fault :: "writer \<Rightarrow> string \<Rightarrow> string \<Rightarrow> string list \<Rightarrow> error option"
  form_field_fault :: "writer \<Rightarrow> string \<Rightarrow> error option"
  new_request_fault :: "string \<Rightarrow> string \<Rightarrow> error option"
  CanonicalMIMEHeaderKey :: "string \<Rightarrow> string"
  cookie_text :: "cookie \<Rightarrow> string"

definition NewWriter :: "lib \<Rightarrow> writer" where
  "NewWriter l = \<lparr>boundary = new_boundary l, parts = [], wclosed = False\<rparr>"

text \<open>
  Modelled from the spec: \<^verbatim>\<open>CreateFormFile\<close> is a function of this package that is not
  in \<^verbatim>\<open>request.go\<close>. The spec's envelope writer has the operation "start file
  part(field, filename, content-type) -> writer"; the model starts a file part with
  exactly the arguments of the call, or returns the collaborator's error.
\<close>

definition CreateFormFile ::
  "lib \<Rightarrow> writer \<Rightarrow> string \<Rightarrow> string \<Rightarrow> string list \<Rightarrow> error + writer" where
  "CreateFormFile l w field fileName contentType =
     (case form_file_fault l w field fileName contentType of
        Some e \<Rightarrow> Inl e
      | None \<Rightarrow> Inr (w\<lparr>parts := parts w @ [FormFile field fileName contentType []]\<rparr>))"

definition CreateFormField :: "lib \<Rightarrow> writer \<Rightarrow> string \<Rightarrow> error + writer" where
  "CreateFormField l w field =
     (case form_field_fault l w field of
        Some e \<Rightarrow> Inl e
      | None \<Rightarrow> Inr (w\<lparr>parts := parts w @ [FormField field []]\<rparr>))"

text \<open>
  \<^verbatim>\<open>io.Copy(part, reader)\<close> into the part started last: the reader's bytes are written
  to the part, and the copy returns the error that ended it.
\<close>

definition io_Copy :: "writer \<Rightarrow> reader \<Rightarrow> writer \<times> error option" where
  "io_Copy w rd =
     (if parts w = [] then (w, fault (source_of rd))
      else (w\<lparr>parts := butlast (parts w) @
                        [part_write (last (parts w)) (payload (source_of rd))]\<rparr>,
            fault (source_of rd)))"

text \<open>
  \<^verbatim>\<open>FormDataContentType\<close> quotes the boundary when it holds one of the characters
  \<^verbatim>\<open>()<>@,;:\"/[]?= \<close> (the backslash and the double quote are the bytes 0x5C, 0x22).
\<close>

definition tspecials :: "char list" where
  "tspecials = ''()<>@,;:'' @ [CHR 0x5C, CHR 0x22] @ ''/[]?= ''"

definition quote_boundary :: "string \<Rightarrow> string" where
  "quote_boundary b =
     (if \<exists>c \<in> set b. c \<in> set tspecials then [CHR 0x22] @ b @ [CHR 0x22] else b)"

definition FormDataContentType :: "writer \<Rightarrow> string" where
  "FormDataContentType w = ''multipart/form-data; boundary='' @ quote_boundary (boundary w)"

definition Close :: "writer \<Rightarrow> writer" where
  "Close w = w\<lparr>wclosed := True\<rparr>"

subsection \<open>net/url: the encoding of a multi-map\<close>

text \<open>
  \<^verbatim>\<open>url.Values\<close> is a Go map from keys to value lists. The model is an association
  list; a Go map has each key once, and \<^verbatim>\<open>Encode\<close> visits the keys in sorted order
  whatever order the list has. Strings are byte strings, as in Go.
\<close>

type_synonym url_values = "(string \<times> string list) list"

definition upperhex :: string where
  "upperhex = ''0123456789ABCDEF''"

text \<open>\<^verbatim>\<open>shouldEscape(c, encodeQueryComponent)\<close>: all but letters, digits and \<^verbatim>\<open>-_.~\<close>.\<close>

definition shouldEscape :: "char \<Rightarrow> bool" where
  "shouldEscape c =
     (if (CHR ''a'' \<le> c \<and> c \<le> CHR ''z'') \<or> (CHR ''A'' \<le> c \<and> c \<le> CHR ''Z'') \<or>
         (CHR ''0'' \<le> c \<and> c \<le> CHR ''9'') then False
      else if c \<in> set ''-_.~'' then False
      else True)"

definition escape_byte :: "char \<Rightarrow> string" where
  "escape_byte c =
     (if shouldEscape c then
        (if c = CHR '' '' then ''+''
         else [CHR ''%'', upperhex ! (of_char c div 16), upperhex ! (of_char c mod 16)])
      else [c])"

definition QueryEscape :: "string \<Rightarrow> string" where
  "QueryEscape s = concat (map escape_byte s)"

fun join_amp :: "string list \<Rightarrow> string" where
  "join_amp [] = []"
| "join_amp [p] = p"
| "join_amp (p # q # ps) = p @ ''&'' @ join_amp (q # ps)"

text \<open>
  \<^verbatim>\<open>Values.Encode\<close>: for every key in sorted order and every value of its list, the
  pair \<^verbatim>\<open>key=value\<close>, both escaped; an ampersand before every pair but the first (the
  buffer is empty only before the first pair, since every pair holds \<^verbatim>\<open>=\<close>).
\<close>

definition Encode :: "url_values \<Rightarrow> string" where
  "Encode v =
     join_amp (concat (map (\<lambda>(k, vs). map (\<lambda>x. QueryEscape k @ ''='' @ QueryEscape x) vs)
                           (sort_key fst v)))"

subsection \<open>net/url: parsing a query string\<close>

text \<open>
  The reading side, \<^verbatim>\<open>url.ParseQuery\<close>, which the builder never calls: it is what
  "decoding the query string" means. \<^verbatim>\<open>ishex\<close> and \<^verbatim>\<open>unhex\<close> read a hexadecimal digit;
  \<^verbatim>\<open>unescape\<close> in the mode of a query component turns \<^verbatim>\<open>%XX\<close> into the byte and \<^verbatim>\<open>+\<close>
  into a space, and fails on a \<^verbatim>\<open>%\<close> that two hexadecimal digits do not follow.
\<close>

definition ishex :: "char \<Rightarrow> bool" where
  "ishex c =
     ((CHR ''0'' \<le> c \<and> c \<le> CHR ''9'') \<or> (CHR ''a'' \<le> c \<and> c \<le> CHR ''f'') \<or>
      (CHR ''A'' \<le> c \<and> c \<le> CHR ''F''))"

definition unhex :: "char \<Rightarrow> nat" where
  "unhex c =
     (if CHR ''0'' \<le> c \<and> c \<le> CHR ''9'' then of_char c - of_char CHR ''0''
      else if CHR ''a'' \<le> c \<and> c \<le> CHR ''f'' then of_char c - of_char CHR ''a'' + 10
      else if CHR ''A'' \<le> c \<and> c \<le> CHR ''F'' then of_char c - of_char CHR ''A'' + 10
      else 0)"

fun unescape :: "string \<Rightarrow> error + string" where
  "unescape [] = Inr []"
| "unescape (c # s) =
     (if c = CHR ''%'' then
        (case s of
           h # lo # rest \<Rightarrow>
             (if ishex h \<and> ishex lo then
                (case unescape rest of
                   Inl e \<Rightarrow> Inl e
                 | Inr t \<Rightarrow> Inr (char_of (unhex h * 16 + unhex lo) # t))
              else Inl (External ''invalid URL escape''))
         | _ \<Rightarrow> Inl (External ''invalid URL escape''))
      else
        (case unescape s of
           Inl e \<Rightarrow> Inl e
         | Inr t \<Rightarrow> Inr ((if c = CHR ''+'' then CHR '' '' else c) # t)))"

definition QueryUnescape :: "string \<Rightarrow> error + string" where
  "QueryUnescape s = unescape s"

text \<open>
  \<^verbatim>\<open>strings.Cut(s, sep)\<close> for a separator of one byte: the text before the first
  separator and the text after it; all of \<open>s\<close> and the empty string when there is none.
\<close>

fun Cut :: "char \<Rightarrow> string \<Rightarrow> string \<times> string" where
  "Cut sep [] = ([], [])"
| "Cut sep (c # s) = (if c = sep then ([], s) else (c # fst (Cut sep s), snd (Cut sep s)))"

text \<open>\<^verbatim>\<open>m[key] = append(m[key], value)\<close> on the association list.\<close>

fun append_value :: "url_values \<Rightarrow> string \<Rightarrow> string \<Rightarrow> url_values" where
  "append_value [] key v = [(key, [v])]"
| "append_value ((k, vs) # m) key v =
     (if k = key then (k, vs @ [v]) # m else (k, vs) # append_value m key v)"

lemma Cut_shorter: "length (snd (Cut sep s)) \<le> length s"
  by (induction s) auto

lemma Cut_strictly_shorter: "query \<noteq> [] \<Longrightarrow> length (snd (Cut sep query)) < length query"
  using Cut_shorter [of sep "tl query"] by (cases query) (auto simp: less_Suc_eq_le)

text \<open>
  The loop of \<^verbatim>\<open>parseQuery\<close>: while the query is not empty, cut it at the first \<^verbatim>\<open>&\<close>;
  a segment with a semicolon sets the error, an empty segment is skipped, any other is
  cut at its first \<^verbatim>\<open>=\<close>, both halves are unescaped (the first unescaping error is
  kept) and the value is appended under the key. The result is the map and the error.
\<close>

function parseQuery :: "url_values \<Rightarrow> error option \<Rightarrow> string \<Rightarrow> url_values \<times> error option" where
  "parseQuery m e query =
     (if query = [] then (m, e)
      else if CHR '';'' \<in> set (fst (Cut CHR ''&'' query)) then
        parseQuery m (Some (External ''invalid semicolon separator in query''))
          (snd (Cut CHR ''&'' query))
      else if fst (Cut CHR ''&'' query) = [] then parseQuery m e (snd (Cut CHR ''&'' query))
      else
        (case QueryUnescape (fst (Cut CHR ''='' (fst (Cut CHR ''&'' query)))) of
           Inl e1 \<Rightarrow> parseQuery m (if e = None then Some e1 else e) (snd (Cut CHR ''&'' query))
         | Inr key \<Rightarrow>
             (case QueryUnescape (snd (Cut CHR ''='' (fst (Cut CHR ''&'' query)))) of
                Inl e1 \<Rightarrow>
                  parseQuery m (if e = None then Some e1 else e) (snd (Cut CHR ''&'' query))
              | Inr v \<Rightarrow> parseQuery (append_value m key v) e (snd (Cut CHR ''&'' query)))))"
  by pat_completeness auto
termination
  by (relation "measure (\<lambda>(m, e, query). length query)") (simp_all add: Cut_strictly_shorter)

definition ParseQuery :: "string \<Rightarrow> url_values \<times> error option" where
  "ParseQuery query = parseQuery [] None query"

text \<open>
  The pairs \<^verbatim>\<open>Encode\<close> writes, as the two nested loops produce them, and the text of one
  pair.
\<close>

definition pairs_of :: "url_values \<Rightarrow> (string \<times> string) list" where
  "pairs_of v = concat (map (\<lambda>(k, vs). map (Pair k) vs) v)"

definition encode_pair :: "string \<times> string \<Rightarrow> string" where
  "encode_pair kv = QueryEscape (fst kv) @ ''='' @ QueryEscape (snd kv)"

subsection \<open>Configuration methods\<close>

text \<open>
  \<^verbatim>\<open>With\<close>, \<^verbatim>\<open>WithQuery\<close> and \<^verbatim>\<open>WithForm\<close> take \<^verbatim>\<open>*url.Values\<close> and call \<^verbatim>\<open>Encode\<close> on it;
  the model takes the map the pointer refers to. \<^verbatim>\<open>SetCookies\<close> takes cookies, not \<^verbatim>\<open>nil\<close>
  pointers.
\<close>

definition NewRequest ::
  "(http_request \<Rightarrow> http_response option \<times> error option) \<Rightarrow> request" where
  "NewRequest c =
     \<lparr>Request = None, client = c, err = None, body = None, params = [], mime = [],
      cookies = []\<rparr>"

definition Error :: "request \<Rightarrow> error option" where
  "Error r = err r"

definition SetCookies :: "request \<Rightarrow> cookie list \<Rightarrow> request" where
  "SetCookies r cs = r\<lparr>cookies := cs\<rparr>"

definition With :: "request \<Rightarrow> url_values \<Rightarrow> url_values \<Rightarrow> request" where
  "With r ps data =
     r\<lparr>params := Encode ps, body := Some (StringsReader (Encode data)),
       mime := ''application/x-www-form-urlencoded''\<rparr>"

definition WithQuery :: "request \<Rightarrow> url_values \<Rightarrow> request" where
  "WithQuery r ps = r\<lparr>params := Encode ps\<rparr>"

definition WithForm :: "request \<Rightarrow> url_values \<Rightarrow> request" where
  "WithForm r data =
     r\<lparr>mime := ''application/x-www-form-urlencoded'',
       body := Some (StringsReader (Encode data))\<rparr>"

text \<open>
  \<^verbatim>\<open>Json\<close> calls \<^verbatim>\<open>json.Marshal\<close> on a value of any Go type; the marshaller is a
  parameter, returning the document or the error.
\<close>

definition Json :: "('a \<Rightarrow> error + bytes) \<Rightarrow> request \<Rightarrow> 'a \<Rightarrow> request" where
  "Json marshal r data =
     (case marshal data of
        Inl e \<Rightarrow> r\<lparr>err := Some e\<rparr>
      | Inr b \<Rightarrow> r\<lparr>mime := ''application/json'', body := Some (BytesReader b)\<rparr>)"

definition JSON :: "('a \<Rightarrow> error + bytes) \<Rightarrow> request \<Rightarrow> 'a \<Rightarrow> request" where
  "JSON marshal r data = Json marshal r data"

definition WithFile :: "request \<Rightarrow> reader option \<Rightarrow> request" where
  "WithFile r rd = r\<lparr>mime := ''binary/octet-stream'', body := map_option Given rd\<rparr>"

subsection \<open>Effects outside the builder\<close>

text \<open>
  The calls that leave the builder: \<^verbatim>\<open>closeReader\<close> on a reader, and the client's
  \<^verbatim>\<open>Do\<close> on a request. A method that makes such calls returns their list, in order.
\<close>

datatype event = CloseReader body_reader | ClientDo http_request

datatype 'a outcome = Returned 'a | Panic

text \<open>
  Modelled from the spec: \<^verbatim>\<open>closeReader\<close> is a function of this package that is not in
  \<^verbatim>\<open>request.go\<close>. The spec says of it "The underlying body reader, if present, is
  closed": a \<^verbatim>\<open>nil\<close> reader gives no event.
\<close>

definition closeReader :: "body_reader option \<Rightarrow> event list" where
  "closeReader rd = (case rd of None \<Rightarrow> [] | Some b \<Rightarrow> [CloseReader b])"

subsection \<open>AttachFile\<close>

text \<open>
  The local \<^verbatim>\<open>err\<close> is declared and not assigned before the type assertion, so the
  branch for a reader that is not an \<^verbatim>\<open>*os.File\<close> stores \<^verbatim>\<open>nil\<close> in \<^verbatim>\<open>r.err\<close>. The
  deferred \<^verbatim>\<open>closeReader(reader)\<close> is registered in the file branch only and runs on each
  of its returns.
\<close>

definition AttachFile ::
  "lib \<Rightarrow> request \<Rightarrow> reader option \<Rightarrow> string list \<Rightarrow> request \<times> event list" where
  "AttachFile l r rd ctype =
     (case rd of
        Some (OsFile name src) \<Rightarrow>
          (case CreateFormFile l (NewWriter l) ''file'' (Base l name) ctype of
             Inl e \<Rightarrow> (r\<lparr>err := Some e\<rparr>, closeReader (Some (Given (OsFile name src))))
           | Inr w \<Rightarrow>
               (case io_Copy w (OsFile name src) of
                  (w', Some e) \<Rightarrow>
                    (r\<lparr>err := Some e\<rparr>, closeReader (Some (Given (OsFile name src))))
                | (w', None) \<Rightarrow>
                    (r\<lparr>mime := FormDataContentType w', body := Some (BytesBuffer (Close w'))\<rparr>,
                     closeReader (Some (Given (OsFile name src))))))
      | _ \<Rightarrow> (r\<lparr>err := None\<rparr>, []))"

subsection \<open>AttachFiles\<close>

text \<open>
  The variables that live across the iterations of the loop: \<^verbatim>\<open>contentType\<close>, the
  writer and \<^verbatim>\<open>closeReaders\<close>. (\<^verbatim>\<open>fileName\<close> and \<^verbatim>\<open>part\<close> are assigned before each use.)
  The map \<^verbatim>\<open>files\<close> is the list of its entries in the order \<^verbatim>\<open>range\<close> visits them,
  which Go leaves unspecified: a statement about every list is a statement about every
  order.
\<close>

record loop_vars =
  cur_contentType :: string
  cur_writer :: writer
  cur_closeReaders :: "reader list"

text \<open>
  \<^verbatim>\<open>if len(values) > 1 { contentType, ok = values[1].(string) }\<close>: the new value of
  \<^verbatim>\<open>contentType\<close> and \<^verbatim>\<open>ok\<close>. A failed assertion assigns the empty string.
\<close>

fun assert_contentType :: "iface list \<Rightarrow> string \<Rightarrow> string \<times> bool" where
  "assert_contentType (v0 # IString c # vs) cur = (c, True)"
| "assert_contentType (v0 # v1 # vs) cur = ([], False)"
| "assert_contentType values cur = (cur, True)"

text \<open>
  The body of the loop for a field whose list is not empty: the variables after the
  iteration, and the error of the \<^verbatim>\<open>r.err = ...; continue\<close> that ended it, if one did.
\<close>

fun attach_field ::
  "lib \<Rightarrow> string \<Rightarrow> iface list \<Rightarrow> loop_vars \<Rightarrow> loop_vars \<times> error option" where
  "attach_field l field (IReader rd # vs) s =
     (case assert_contentType (IReader rd # vs) (cur_contentType s) of
        (c, False) \<Rightarrow> (s\<lparr>cur_contentType := c\<rparr>, Some (ErrorsNew ''value is not a string''))
      | (c, True) \<Rightarrow>
          (case rd of
             OsFile name src \<Rightarrow>
               (case CreateFormFile l (cur_writer s) field (Base l name) [c] of
                  Inl e \<Rightarrow>
                    (s\<lparr>cur_contentType := c, cur_closeReaders := cur_closeReaders s @ [rd]\<rparr>,
                     Some e)
                | Inr w \<Rightarrow>
                    (s\<lparr>cur_contentType := c, cur_closeReaders := cur_closeReaders s @ [rd],
                       cur_writer := fst (io_Copy w rd)\<rparr>,
                     snd (io_Copy w rd)))
           | Stream src \<Rightarrow>
               (case CreateFormField l (cur_writer s) field of
                  Inl e \<Rightarrow> (s\<lparr>cur_contentType := c\<rparr>, Some e)
                | Inr w \<Rightarrow>
                    (s\<lparr>cur_contentType := c, cur_writer := fst (io_Copy w rd)\<rparr>,
                     snd (io_Copy w rd)))))"
| "attach_field l field values s =
     (s, Some (ErrorsNew ''value is not an interface io.Reader''))"

text \<open>
  The loop. The first argument after the fields is \<^verbatim>\<open>r.err\<close>. The loop is left
  either by the \<^verbatim>\<open>return r\<close> inside it, taken at a field with an empty list
  (\<open>EarlyReturn\<close>, with the variables at that point), or after the last field
  (\<open>LoopDone\<close>, with \<^verbatim>\<open>r.err\<close> and the variables).
\<close>

datatype loop_exit = EarlyReturn loop_vars | LoopDone "error option" loop_vars

fun attach_loop ::
  "lib \<Rightarrow> (string \<times> iface list) list \<Rightarrow> error option \<Rightarrow> loop_vars \<Rightarrow> loop_exit" where
  "attach_loop l [] e s = LoopDone e s"
| "attach_loop l ((field, values) # rest) e s =
     (if values = [] then EarlyReturn s
      else (case attach_field l field values s of
              (s', Some e') \<Rightarrow> attach_loop l rest (Some e') s'
            | (s', None) \<Rightarrow> attach_loop l rest e s'))"

text \<open>
  The variables before the first iteration: \<^verbatim>\<open>contentType\<close> is the empty string, the
  writer is new, nothing is listed for closing.
\<close>

definition loop_start :: "lib \<Rightarrow> loop_vars" where
  "loop_start l = \<lparr>cur_contentType = [], cur_writer = NewWriter l, cur_closeReaders = []\<rparr>"

text \<open>
  The first listing of \<^verbatim>\<open>AttachFiles\<close> closes the files of \<^verbatim>\<open>closeReaders\<close> after the
  loop, in the order they were listed, and none on the early return.
\<close>

definition AttachFiles ::
  "lib \<Rightarrow> request \<Rightarrow> (string \<times> iface list) list \<Rightarrow> request \<times> event list" where
  "AttachFiles l r files =
     (case attach_loop l files (err r) (loop_start l) of
        EarlyReturn s \<Rightarrow> (r\<lparr>err := Some ErrorEmptyListValues\<rparr>, [])
      | LoopDone e s \<Rightarrow>
          (r\<lparr>err := e, mime := FormDataContentType (cur_writer s),
             body := Some (BytesBuffer (Close (cur_writer s)))\<rparr>,
           concat (map (\<lambda>rd. closeReader (Some (Given rd))) (cur_closeReaders s))))"

text \<open>
  The second listing of \<^verbatim>\<open>AttachFiles\<close> in the file has the same loop, with a deferred
  \<^verbatim>\<open>closeReader(reader)\<close> where the first listing appends to \<^verbatim>\<open>closeReaders\<close>: the files
  are closed on every return, the early one included, the last registered first.
\<close>

definition AttachFiles_listing2 ::
  "lib \<Rightarrow> request \<Rightarrow> (string \<times> iface list) list \<Rightarrow> request \<times> event list" where
  "AttachFiles_listing2 l r files =
     (case attach_loop l files (err r) (loop_start l) of
        EarlyReturn s \<Rightarrow>
          (r\<lparr>err := Some ErrorEmptyListValues\<rparr>,
           concat (map (\<lambda>rd. closeReader (Some (Given rd))) (rev (cur_closeReaders s))))
      | LoopDone e s \<Rightarrow>
          (r\<lparr>err := e, mime := FormDataContentType (cur_writer s),
             body := Some (BytesBuffer (Close (cur_writer s)))\<rparr>,
           concat (map (\<lambda>rd. closeReader (Some (Given rd))) (rev (cur_closeReaders s)))))"

subsection \<open>Dispatch\<close>

text \<open>
  \<^verbatim>\<open>http.Header\<close> is a map from canonical keys to value lists: \<^verbatim>\<open>Set\<close> replaces the
  list of the canonical key by the one value, \<^verbatim>\<open>Get\<close> reads its first value or the
  empty string.
\<close>

definition header_Set :: "lib \<Rightarrow> header \<Rightarrow> string \<Rightarrow> string \<Rightarrow> header" where
  "header_Set l h key v = h(CanonicalMIMEHeaderKey l key \<mapsto> [v])"

definition header_Get :: "lib \<Rightarrow> header \<Rightarrow> string \<Rightarrow> string" where
  "header_Get l h key =
     (case h (CanonicalMIMEHeaderKey l key) of Some (v # vs) \<Rightarrow> v | _ \<Rightarrow> [])"

text \<open>
  \<^verbatim>\<open>http.NewRequest(method, uri, body)\<close>: an error for a method or URI it rejects,
  else a request with an empty header; the empty method stands for \<^verbatim>\<open>GET\<close>. \<open>URL\<close> keeps
  the URI as given. The query string parsed out of the URI is not modelled:
  \<^verbatim>\<open>prepareRequest\<close> overwrites \<^verbatim>\<open>URL.RawQuery\<close> before anything reads it.
\<close>

definition http_NewRequest ::
  "lib \<Rightarrow> string \<Rightarrow> string \<Rightarrow> body_reader option \<Rightarrow> error + http_request" where
  "http_NewRequest l method uri b =
     (case new_request_fault l method uri of
        Some e \<Rightarrow> Inl e
      | None \<Rightarrow>
          Inr \<lparr>Method = (if method = [] then ''GET'' else method), URL = uri, RawQuery = [],
               Header = Map.empty, Body = b\<rparr>)"

text \<open>
  \<^verbatim>\<open>prepareRequest\<close> wraps a body that is no \<^verbatim>\<open>io.ReadCloser\<close> in \<^verbatim>\<open>io.NopCloser\<close>, which
  reads the same bytes; the model passes the body on as it is. A failed
  \<^verbatim>\<open>http.NewRequest\<close> leaves \<^verbatim>\<open>r.Request\<close> \<^verbatim>\<open>nil\<close> and records the error.
\<close>

text \<open>
  \<^verbatim>\<open>for key, val := range headers[0] { r.Request.Header.Set(key, val[0]) }\<close>: the
  entries of the map in the order \<^verbatim>\<open>range\<close> visits them; \<^verbatim>\<open>val[0]\<close> of an empty list is
  an index out of range, a run-time panic.
\<close>

fun set_headers :: "lib \<Rightarrow> (string \<times> string list) list \<Rightarrow> header \<Rightarrow> header outcome" where
  "set_headers l [] h = Returned h"
| "set_headers l ((key, val) # rest) h =
     (case val of
        [] \<Rightarrow> Panic
      | v # vs \<Rightarrow> set_headers l rest (header_Set l h key v))"

definition prepareRequest ::
  "lib \<Rightarrow> request \<Rightarrow> string \<Rightarrow> string \<Rightarrow> (string \<times> string list) list list \<Rightarrow>
     request outcome" where
  "prepareRequest l r method uri headers =
     (case http_NewRequest l method uri (body r) of
        Inl e \<Rightarrow> Returned (r\<lparr>Request := None, err := Some e\<rparr>)
      | Inr req \<Rightarrow>
          (let h1 = (if mime r \<noteq> [] then header_Set l (Header req) ''Content-Type'' (mime r)
                     else Header req)
           in case headers of
                [] \<Rightarrow> Returned (r\<lparr>Request := Some (req\<lparr>RawQuery := params r, Header := h1\<rparr>)\<rparr>)
              | first # others \<Rightarrow>
                  (case set_headers l first h1 of
                     Panic \<Rightarrow> Panic
                   | Returned h2 \<Rightarrow>
                       Returned (r\<lparr>Request := Some (req\<lparr>RawQuery := params r, Header := h2\<rparr>)\<rparr>))))"

text \<open>
  \<^verbatim>\<open>Request.AddCookie\<close> appends the cookie's text to the \<^verbatim>\<open>Cookie\<close> header, after
  \<^verbatim>\<open>"; "\<close> when the header is not empty. \<^verbatim>\<open>prepareCookies\<close> calls it on \<^verbatim>\<open>r.Request\<close> for
  every pending cookie: with a \<^verbatim>\<open>nil\<close> \<^verbatim>\<open>r.Request\<close> (after \<^verbatim>\<open>http.NewRequest\<close> failed) the
  first call dereferences \<^verbatim>\<open>nil\<close> and panics.
\<close>

definition AddCookie :: "lib \<Rightarrow> cookie \<Rightarrow> http_request \<Rightarrow> http_request" where
  "AddCookie l c req =
     (let cur = header_Get l (Header req) ''Cookie''
      in req\<lparr>Header := header_Set l (Header req) ''Cookie''
                 (if cur \<noteq> [] then cur @ ''; '' @ cookie_text l c else cookie_text l c)\<rparr>)"

definition prepareCookies :: "lib \<Rightarrow> request \<Rightarrow> request outcome" where
  "prepareCookies l r =
     (if cookies r = [] then Returned r
      else (case Request r of
              None \<Rightarrow> Panic
            | Some req \<Rightarrow> Returned (r\<lparr>Request := Some (fold (AddCookie l) (cookies r) req)\<rparr>)))"

text \<open>
  \<^verbatim>\<open>Do\<close> returns the response wrapper and leaves the builder updated; the second
  component lists the calls that left the builder. The deferred \<^verbatim>\<open>closeReader(r.body)\<close>
  takes the body the builder had on entry and runs last on every path, a panic
  included. The shell returned for a recorded error is \<^verbatim>\<open>&Response{nil, r.err, nil}\<close>.
\<close>

definition Do ::
  "lib \<Rightarrow> request \<Rightarrow> string \<Rightarrow> string \<Rightarrow> (string \<times> string list) list list \<Rightarrow>
     (response \<times> request) outcome \<times> event list" where
  "Do l r method uri headers =
     (if err r \<noteq> None then
        (Returned (\<lparr>Response = None, resp_err = err r, content = None\<rparr>, r),
         closeReader (body r))
      else
        (case prepareRequest l r method uri headers of
           Panic \<Rightarrow> (Panic, closeReader (body r))
         | Returned r1 \<Rightarrow>
             (case prepareCookies l r1 of
                Panic \<Rightarrow> (Panic, closeReader (body r))
              | Returned r2 \<Rightarrow>
                  (if err r2 \<noteq> None then
                     (Returned (\<lparr>Response = None, resp_err = err r2, content = None\<rparr>, r2),
                      closeReader (body r))
                   else
                     (case Request r2 of
                        None \<Rightarrow> (Panic, closeReader (body r))
                      | Some req \<Rightarrow>
                          (Returned (\<lparr>Response = fst (client r2 req),
                                      resp_err = snd (client r2 req), content = None\<rparr>, r2),
                           ClientDo req # closeReader (body r)))))))"

text \<open>
  The second listing of \<^verbatim>\<open>Do\<close> in the file differs in the shell only: it is
  \<^verbatim>\<open>&Response{nil, nil, nil}\<close> on both short-circuit paths.
\<close>

definition Do_listing2 ::
  "lib \<Rightarrow> request \<Rightarrow> string \<Rightarrow> string \<Rightarrow> (string \<times> string list) list list \<Rightarrow>
     (response \<times> request) outcome \<times> event list" where
  "Do_listing2 l r method uri headers =
     (if err r \<noteq> None then
        (Returned (\<lparr>Response = None, resp_err = None, content = None\<rparr>, r),
         closeReader (body r))
      else
        (case prepareRequest l r method uri headers of
           Panic \<Rightarrow> (Panic, closeReader (body r))
         | Returned r1 \<Rightarrow>
             (case prepareCookies l r1 of
                Panic \<Rightarrow> (Panic, closeReader (body r))
              | Returned r2 \<Rightarrow>
                  (if err r2 \<noteq> None then
                     (Returned (\<lparr>Response = None, resp_err = None, content = None\<rparr>, r2),
                      closeReader (body r))
                   else
                     (case Request r2 of
                        None \<Rightarrow> (Panic, closeReader (body r))
                      | Some req \<Rightarrow>
                          (Returned (\<lparr>Response = fst (client r2 req),
                                      resp_err = snd (client r2 req), content = None\<rparr>, r2),
                           ClientDo req # closeReader (body r)))))))"

definition Get ::
  "lib \<Rightarrow> request \<Rightarrow> string \<Rightarrow> (string \<times> string list) list list \<Rightarrow>
     (response \<times> request) outcome \<times> event list" where
  "Get l r uri headers = Do l r ''GET'' uri headers"

definition Post ::
  "lib \<Rightarrow> request \<Rightarrow> string \<Rightarrow> (string \<times> string list) list list \<Rightarrow>
     (response \<times> request) outcome \<times> event list" where
  "Post l r uri headers = Do l r ''POST'' uri headers"

definition Head :: "lib \<Rightarrow> request \<Rightarrow> string \<Rightarrow> (response \<times> request) outcome \<times> event list" where
  "Head l r uri = Do l r ''HEAD'' uri []"

subsection \<open>What each iteration of the loop reports\<close>

text \<open>
  The errors of the iterations of the loop of \<^verbatim>\<open>AttachFiles\<close>, in order: \<open>None\<close> for
  an iteration that ran to its end. \<open>last_error\<close> is the value of \<^verbatim>\<open>r.err\<close> after the
  listed assignments: the last error of the list, or the builder's error before the
  loop when no iteration reported one.
\<close>

fun field_errors ::
  "lib \<Rightarrow> (string \<times> iface list) list \<Rightarrow> loop_vars \<Rightarrow> error option list" where
  "field_errors l [] s = []"
| "field_errors l ((field, values) # rest) s =
     snd (attach_field l field values s) #
     field_errors l rest (fst (attach_field l field values s))"

fun last_error :: "error option \<Rightarrow> error option list \<Rightarrow> error option" where
  "last_error e [] = e"
| "last_error e (None # es) = last_error e es"
| "last_error e (Some e' # es) = last_error (Some e') es"

subsection \<open>A concrete library and concrete inputs\<close>

text \<open>
  \<^verbatim>\<open>filepath.Base\<close> on a Unix path: the last element, trailing slashes removed; \<^verbatim>\<open>.\<close> for
  the empty path and \<^verbatim>\<open>/\<close> for a path of slashes only.
\<close>

definition path_Base :: "string \<Rightarrow> string" where
  "path_Base p =
     (if p = [] then ''.''
      else (let q = rev (dropWhile (\<lambda>c. c = CHR ''/'') (rev p))
            in if q = [] then ''/'' else rev (takeWhile (\<lambda>c. c \<noteq> CHR ''/'') (rev q))))"

text \<open>
  A library in which nothing fails: writing into a \<^verbatim>\<open>bytes.Buffer\<close> never does, and every
  method and URI is accepted. Header keys are taken as canonical already.
\<close>

definition plain_lib :: lib where
  "plain_lib =
     \<lparr>new_boundary = ''7d1f3a'', Base = path_Base,
      form_file_fault = (\<lambda>w field fileName ctype. None),
      form_field_fault = (\<lambda>w field. None),
      new_request_fault = (\<lambda>method uri. None),
      CanonicalMIMEHeaderKey = (\<lambda>key. key),
      cookie_text = (\<lambda>c. cname c @ ''='' @ cvalue c)\<rparr>"

definition ok_client :: "http_request \<Rightarrow> http_response option \<times> error option" where
  "ok_client req = (Some \<lparr>StatusCode = 200, ResponseBody = []\<rparr>, None)"


text \<open>
  A fragment of \<^verbatim>\<open>encoding/json\<close> on three Go values: \<^verbatim>\<open>nil\<close>, a \<^verbatim>\<open>bool\<close>, and a
  channel, which \<^verbatim>\<open>json.Marshal\<close> rejects with an \<^verbatim>\<open>UnsupportedTypeError\<close>.
\<close>

datatype go_value = GoNil | GoBool bool | GoChan

fun json_Marshal :: "go_value \<Rightarrow> error + bytes" where
  "json_Marshal GoNil = Inr ''null''"
| "json_Marshal (GoBool b) = Inr (if b then ''true'' else ''false'')"
| "json_Marshal GoChan = Inl (External ''json: unsupported type: chan int'')"


text \<open>
  A builder on which an error has been recorded: a new builder after \<^verbatim>\<open>Json\<close> of a
  channel.
\<close>

definition errored :: request where
  "errored = Json json_Marshal (NewRequest ok_client) GoChan"

text \<open>A reader that delivers five bytes and ends without error.\<close>

definition hello :: source where
  "hello = \<lparr>payload = ''hello'', fault = None\<rparr>"

text \<open>A reader that delivers three bytes and then fails.\<close>

definition broken :: source where
  "broken = \<lparr>payload = ''par'', fault = Some (External ''read: input/output error'')\<rparr>"

text \<open>A multi-map with two keys, given out of order, and values that need escaping.\<close>

definition sample_query :: url_values where
  "sample_query = [(''q'', [''a b'', ''c&d'']), (''lang'', [''go''])]"

section \<open>Properties\<close>

subsection \<open>Dispatch with a recorded error\<close>

text \<open>
  C2. For every builder with a recorded error, \<^verbatim>\<open>Do\<close> returns a response shell with
  no transport response (and no content), leaves the builder as it was, and makes no call
  of the client: the only calls that leave the builder are the deferred
  \<^verbatim>\<open>closeReader\<close>. The shell of the first listing carries the recorded error, the shell
  of the second listing none.
\<close>

theorem Do_short_circuit:
  assumes "err r = Some e"
  shows "Do l r method uri headers =
           (Returned (\<lparr>Response = None, resp_err = Some e, content = None\<rparr>, r),
            closeReader (body r)) \<and>
         Do_listing2 l r method uri headers =
           (Returned (\<lparr>Response = None, resp_err = None, content = None\<rparr>, r),
            closeReader (body r)) \<and>
         ClientDo req \<notin> set (snd (Do l r method uri headers)) \<and>
         ClientDo req \<notin> set (snd (Do_listing2 l r method uri headers))"
  using assms by (auto simp: Do_def Do_listing2_def closeReader_def split: option.splits)

theorem Do_short_circuit_witness:
  "err errored = Some (External ''json: unsupported type: chan int'') \<and>
   Do plain_lib errored ''GET'' ''http://example.test/x'' [] =
     (Returned (\<lparr>Response = None, resp_err = Some (External ''json: unsupported type: chan int''), content = None\<rparr>,
                errored), []) \<and>
   Do_listing2 plain_lib errored ''GET'' ''http://example.test/x'' [] =
     (Returned (\<lparr>Response = None, resp_err = None, content = None\<rparr>, errored), [])"
proof -
  have e: "err errored = Some (External ''json: unsupported type: chan int'')"
    by (simp add: errored_def Json_def)
  have b: "closeReader (body errored) = []"
    by (simp add: errored_def Json_def NewRequest_def closeReader_def)
  show ?thesis
    using e b Do_short_circuit [OF e, of plain_lib "''GET''" "''http://example.test/x''" "[]"]
    by simp
qed

subsection \<open>AttachFile with a reader that is not a file\<close>

text \<open>
  C5, what the code does. For a reader that is not an \<^verbatim>\<open>*os.File\<close> (a \<^verbatim>\<open>nil\<close> reader
  included), \<^verbatim>\<open>AttachFile\<close> leaves body and content-type as they were and stores
  \<^verbatim>\<open>nil\<close> in \<^verbatim>\<open>r.err\<close>: afterwards \<^verbatim>\<open>Error()\<close> is \<^verbatim>\<open>nil\<close>, also when an error had been
  recorded before.
\<close>

theorem AttachFile_non_file_stores_nil:
  "AttachFile l r (Some (Stream src)) ctype = (r\<lparr>err := None\<rparr>, []) \<and>
   AttachFile l r None ctype = (r\<lparr>err := None\<rparr>, []) \<and>
   Error (fst (AttachFile l r (Some (Stream src)) ctype)) = None \<and>
   Error (fst (AttachFile l errored (Some (Stream src)) ctype)) = None"
  by (simp add: AttachFile_def Error_def)

subsection \<open>AttachFiles: empty lists and the empty mapping\<close>

text \<open>The two listings leave the same builder.\<close>

lemma AttachFiles_listings_agree:
  "fst (AttachFiles_listing2 l r files) = fst (AttachFiles l r files)"
  by (simp add: AttachFiles_listing2_def AttachFiles_def split: loop_exit.splits)

lemma attach_loop_empty_list:
  "(field, []) \<in> set files \<Longrightarrow> \<exists>s'. attach_loop l files e s = EarlyReturn s'"
  by (induction files arbitrary: e s) (auto split: prod.splits option.splits)

text \<open>
  C3. When some field of the mapping has an empty value list, \<^verbatim>\<open>AttachFiles\<close> records
  \<^verbatim>\<open>ErrorEmptyListValues\<close> (whatever order the fields are visited in, and whatever the
  fields before it recorded) and changes nothing else of the builder: body and
  content-type are as before the call, so a body that was unset stays unset.
\<close>

theorem AttachFiles_empty_value_list:
  assumes "(field, []) \<in> set files"
  shows "Error (fst (AttachFiles l r files)) = Some ErrorEmptyListValues \<and>
         body (fst (AttachFiles l r files)) = body r \<and>
         mime (fst (AttachFiles l r files)) = mime r \<and>
         fst (AttachFiles l r files) = r\<lparr>err := Some ErrorEmptyListValues\<rparr> \<and>
         fst (AttachFiles_listing2 l r files) = r\<lparr>err := Some ErrorEmptyListValues\<rparr>"
proof -
  from attach_loop_empty_list [OF assms, of l "err r" "loop_start l"] obtain s' where
    "attach_loop l files (err r) (loop_start l) = EarlyReturn s'"
    by blast
  then show ?thesis
    by (simp add: AttachFiles_def AttachFiles_listing2_def Error_def)
qed

theorem AttachFiles_empty_value_list_witness:
  "(''f'', []) \<in> set [(''f'', [])] \<and>
   Error (fst (AttachFiles plain_lib (NewRequest ok_client) [(''f'', [])])) =
     Some ErrorEmptyListValues \<and>
   body (fst (AttachFiles plain_lib (NewRequest ok_client) [(''f'', [])])) = None"
proof -
  have m: "(''f'', []) \<in> set [(''f'', [] :: iface list)]"
    by simp
  show ?thesis
    using m AttachFiles_empty_value_list [OF m, of plain_lib "NewRequest ok_client"]
    by (simp add: NewRequest_def Error_def)
qed

text \<open>
  C8. \<^verbatim>\<open>AttachFiles\<close> on the empty mapping records no error (the builder's error is
  what it was, none on a new builder), sets the body to the buffer of a closed envelope
  with no part, and the content-type to \<^verbatim>\<open>multipart/form-data; boundary=\<close> followed by
  the writer's boundary (quoted when it needs quoting).
\<close>

theorem AttachFiles_no_fields:
  "Error (fst (AttachFiles l r [])) = Error r \<and>
   Error (fst (AttachFiles l (NewRequest c) [])) = None \<and>
   body (fst (AttachFiles l r [])) =
     Some (BytesBuffer \<lparr>boundary = new_boundary l, parts = [], wclosed = True\<rparr>) \<and>
   mime (fst (AttachFiles l r [])) =
     ''multipart/form-data; boundary='' @ quote_boundary (new_boundary l) \<and>
   snd (AttachFiles l r []) = [] \<and>
   AttachFiles_listing2 l r [] = AttachFiles l r []"
  by (simp add: AttachFiles_def AttachFiles_listing2_def loop_start_def Error_def NewRequest_def
      NewWriter_def Close_def FormDataContentType_def)

subsection \<open>Json\<close>



subsection \<open>Configuration calls after a recorded error\<close>

lemma attach_loop_keeps_error:
  "attach_loop l files e s = LoopDone e' s' \<Longrightarrow> e \<noteq> None \<Longrightarrow> e' \<noteq> None"
  by (induction files arbitrary: e s) (auto split: prod.splits option.splits if_splits)

text \<open>
  C1, as amended. No configuration method reads \<^verbatim>\<open>r.err\<close>: on a builder with a
  recorded error each call still does its work. What holds is that an error stays
  recorded. \<^verbatim>\<open>WithQuery\<close>, \<^verbatim>\<open>WithForm\<close>, \<^verbatim>\<open>WithFile\<close>, \<^verbatim>\<open>SetCookies\<close> and a \<^verbatim>\<open>Json\<close> whose
  marshalling succeeds keep the recorded error itself; a \<^verbatim>\<open>Json\<close> whose marshalling
  fails replaces it by the marshaller's error; after \<^verbatim>\<open>AttachFile\<close> on a file and after
  \<^verbatim>\<open>AttachFiles\<close> an error is recorded (the old one, or the call's own).
\<close>

theorem recorded_error_after_configuration:
  assumes "err r = Some e"
  shows "Error (WithQuery r q) = Some e \<and> params (WithQuery r q) = Encode q \<and>
         Error (WithForm r data) = Some e \<and>
         body (WithForm r data) = Some (StringsReader (Encode data)) \<and>
         mime (WithForm r data) = ''application/x-www-form-urlencoded'' \<and>
         Error (WithFile r rd) = Some e \<and>
         body (WithFile r rd) = map_option Given rd \<and>
         mime (WithFile r rd) = ''binary/octet-stream'' \<and>
         Error (SetCookies r cs) = Some e \<and> cookies (SetCookies r cs) = cs \<and>
         Error (Json marshal r d) = (case marshal d of Inl e' \<Rightarrow> Some e' | Inr b \<Rightarrow> Some e) \<and>
         body (Json marshal r d) =
           (case marshal d of Inl e' \<Rightarrow> body r | Inr b \<Rightarrow> Some (BytesReader b)) \<and>
         Error (fst (AttachFile l r (Some (OsFile name src)) ctype)) \<noteq> None \<and>
         Error (fst (AttachFiles l r files)) \<noteq> None \<and>
         Error (fst (AttachFiles_listing2 l r files)) \<noteq> None"
proof -
  have "Error (fst (AttachFiles l r files)) \<noteq> None"
    using assms attach_loop_keeps_error [of l files "err r" "loop_start l"]
    by (auto simp: AttachFiles_def Error_def split: loop_exit.splits)
  moreover have "Error (fst (AttachFile l r (Some (OsFile name src)) ctype)) \<noteq> None"
    using assms by (auto simp: AttachFile_def Error_def split: sum.splits prod.splits option.splits)
  ultimately show ?thesis
    using assms
    by (simp add: Error_def WithQuery_def WithForm_def WithFile_def SetCookies_def Json_def
        AttachFiles_listings_agree split: sum.splits)
qed

theorem recorded_error_after_configuration_witness:
  "err errored = Some (External ''json: unsupported type: chan int'') \<and>
   Error (WithQuery errored [(''a'', [''b''])]) = Some (External ''json: unsupported type: chan int'') \<and>
   Error (SetCookies errored [\<lparr>cname = ''sid'', cvalue = ''1''\<rparr>]) = Some (External ''json: unsupported type: chan int'') \<and>
   Error (Json json_Marshal errored GoNil) = Some (External ''json: unsupported type: chan int'') \<and>
   Error (Json json_Marshal errored GoChan) =
     Some (External ''json: unsupported type: chan int'') \<and>
   Error (fst (AttachFiles plain_lib errored [])) \<noteq> None"
proof -
  have e: "err errored = Some (External ''json: unsupported type: chan int'')"
    by (simp add: errored_def Json_def)
  show ?thesis
    using e
      recorded_error_after_configuration [OF e, of "[(''a'', [''b''])]" _ _
        "[\<lparr>cname = ''sid'', cvalue = ''1''\<rparr>]" json_Marshal GoNil plain_lib _ _ _ "[]"]
      recorded_error_after_configuration [OF e, of _ _ _ _ json_Marshal GoChan]
    by simp
qed

text \<open>
  C1, as stated, fails: on the builder \<open>errored\<close> (a new builder after a failed
  \<^verbatim>\<open>Json\<close>), \<^verbatim>\<open>WithQuery\<close> replaces the query string, so the call is not a no-op, and
  \<^verbatim>\<open>AttachFiles\<close> with an empty value list overwrites the recorded error by
  \<^verbatim>\<open>ErrorEmptyListValues\<close>.
\<close>

theorem sticky_error_counterexample:
  "err errored \<noteq> None \<and>
   params errored = [] \<and>
   params (WithQuery errored [(''a'', [''b''])]) = ''a=b'' \<and>
   WithQuery errored [(''a'', [''b''])] \<noteq> errored \<and>
   Error errored = Some (External ''json: unsupported type: chan int'') \<and>
   Error (fst (AttachFiles plain_lib errored [(''f'', [])])) = Some ErrorEmptyListValues"
proof -
  have p: "params (WithQuery errored [(''a'', [''b''])]) = ''a=b''"
    by (simp add: WithQuery_def Encode_def QueryEscape_def escape_byte_def shouldEscape_def)
  have q: "params errored = []"
    by (simp add: errored_def Json_def NewRequest_def)
  from p q have "WithQuery errored [(''a'', [''b''])] \<noteq> errored"
    by auto
  with p q show ?thesis
    by (simp add: errored_def Json_def NewRequest_def Error_def AttachFiles_def)
qed

subsection \<open>AttachFiles: errors of single fields\<close>

lemma attach_field_extends:
  "\<exists>ps. parts (cur_writer (fst (attach_field l field values s))) = parts (cur_writer s) @ ps"
proof (cases "(l, field, values, s)" rule: attach_field.cases)
  case (1 l' field' rd vs s')
  then show ?thesis
    by (auto simp: CreateFormFile_def CreateFormField_def io_Copy_def
        split: prod.splits bool.splits reader.splits sum.splits option.splits)
qed simp_all

lemma attach_loop_extends:
  "attach_loop l files e s = LoopDone e' s' \<Longrightarrow>
   \<exists>ps. parts (cur_writer s') = parts (cur_writer s) @ ps"
proof (induction files arbitrary: e s)
  case Nil
  then show ?case by simp
next
  case (Cons fv files)
  obtain field "values" where fv: "fv = (field, values)" by (cases fv)
  obtain s1 e1 where st: "attach_field l field values s = (s1, e1)"
    by (cases "attach_field l field values s")
  from Cons.prems fv st obtain e2 where "attach_loop l files e2 s1 = LoopDone e' s'"
    by (auto split: if_splits option.splits)
  from Cons.IH [OF this] obtain ps where ps: "parts (cur_writer s') = parts (cur_writer s1) @ ps"
    by blast
  from attach_field_extends [of l field "values" s] st obtain qs where
    "parts (cur_writer s1) = parts (cur_writer s) @ qs"
    by auto
  with ps show ?case by simp
qed

lemma attach_loop_append:
  "attach_loop l pre e s = LoopDone e1 s1 \<Longrightarrow>
   attach_loop l (pre @ post) e s = attach_loop l post e1 s1"
  by (induction pre arbitrary: e s) (auto split: prod.splits option.splits if_splits)

lemma attach_loop_completes:
  "\<forall>(field, values) \<in> set files. values \<noteq> [] \<Longrightarrow>
   \<exists>s'. attach_loop l files e s = LoopDone (last_error e (field_errors l files s)) s'"
proof (induction files arbitrary: e s)
  case Nil
  then show ?case by simp
next
  case (Cons fv files)
  obtain field "values" where fv: "fv = (field, values)" by (cases fv)
  obtain s1 e1 where st: "attach_field l field values s = (s1, e1)"
    by (cases "attach_field l field values s")
  from Cons.prems fv have ne: "values \<noteq> []" and rest: "\<forall>(field, values) \<in> set files. values \<noteq> []"
    by auto
  show ?case
  proof (cases e1)
    case None
    with Cons.IH [OF rest, of e s1] fv st ne show ?thesis by simp
  next
    case (Some e')
    with Cons.IH [OF rest, of "Some e'" s1] fv st ne show ?thesis by simp
  qed
qed

lemma attach_loop_after_field:
  assumes "attach_loop l pre e s = LoopDone e1 s1"
    and "attach_field l field values s1 = (s2, Some e2)"
    and "values \<noteq> []"
  shows "attach_loop l (pre @ (field, values) # post) e s = attach_loop l post (Some e2) s2"
  using attach_loop_append [OF assms(1), of "(field, values) # post"] assms(2,3) by simp

lemma attach_field_kinds:
  assumes "(values = v0 # vs \<and> (\<forall>rd. v0 \<noteq> IReader rd) \<and>
            e2 = ErrorsNew ''value is not an interface io.Reader'' \<and> s2 = s1) \<or>
           (values = IReader rd # v1 # vs \<and> (\<forall>c. v1 \<noteq> IString c) \<and>
            e2 = ErrorsNew ''value is not a string'' \<and> s2 = s1\<lparr>cur_contentType := []\<rparr>) \<or>
           (values = IReader (Stream src) # vs \<and>
            assert_contentType values (cur_contentType s1) = (c, True) \<and>
            form_field_fault l (cur_writer s1) field = None \<and> fault src = Some e2 \<and>
            s2 = s1\<lparr>cur_contentType := c,
                    cur_writer := (cur_writer s1)
                      \<lparr>parts := parts (cur_writer s1) @ [FormField field (payload src)]\<rparr>\<rparr>) \<or>
           (values = IReader (OsFile name src) # vs \<and>
            assert_contentType values (cur_contentType s1) = (c, True) \<and>
            form_file_fault l (cur_writer s1) field (Base l name) [c] = None \<and>
            fault src = Some e2 \<and>
            s2 = s1\<lparr>cur_contentType := c,
                    cur_closeReaders := cur_closeReaders s1 @ [OsFile name src],
                    cur_writer := (cur_writer s1)
                      \<lparr>parts := parts (cur_writer s1) @
                                 [FormFile field (Base l name) [c] (payload src)]\<rparr>\<rparr>) \<or>
           (values = IReader (Stream src) # vs \<and>
            assert_contentType values (cur_contentType s1) = (c, True) \<and>
            form_field_fault l (cur_writer s1) field = Some e2 \<and>
            s2 = s1\<lparr>cur_contentType := c\<rparr>) \<or>
           (values = IReader (OsFile name src) # vs \<and>
            assert_contentType values (cur_contentType s1) = (c, True) \<and>
            form_file_fault l (cur_writer s1) field (Base l name) [c] = Some e2 \<and>
            s2 = s1\<lparr>cur_contentType := c,
                    cur_closeReaders := cur_closeReaders s1 @ [OsFile name src]\<rparr>)"
  shows "attach_field l field values s1 = (s2, Some e2) \<and> values \<noteq> []"
  using assms
proof (elim disjE conjE)
  assume "values = v0 # vs" "\<forall>rd. v0 \<noteq> IReader rd"
    "e2 = ErrorsNew ''value is not an interface io.Reader''" "s2 = s1"
  then show ?thesis by (cases v0) simp_all
next
  assume "values = IReader rd # v1 # vs" "\<forall>c. v1 \<noteq> IString c"
    "e2 = ErrorsNew ''value is not a string''" "s2 = s1\<lparr>cur_contentType := []\<rparr>"
  then show ?thesis by (cases v1) simp_all
qed (simp_all add: CreateFormField_def CreateFormFile_def io_Copy_def)


lemma last_error_no_later:
  "\<forall>x \<in> set es. x = None \<Longrightarrow> last_error e es = e"
  by (induction es arbitrary: e) auto

text \<open>
  C4. Let the loop have passed the fields \<open>pre\<close> and be in the state \<open>s1\<close>, and let no
  list of \<open>pre\<close> or \<open>post\<close> be empty. When the iteration for the next field fails in one of
  these ways:
  \<^item> its first value is no \<^verbatim>\<open>io.Reader\<close>: \<^verbatim>\<open>"value is not an interface io.Reader"\<close>;
  \<^item> its second value is no string: \<^verbatim>\<open>"value is not a string"\<close>, and \<^verbatim>\<open>contentType\<close> is
    left empty;
  \<^item> the copy from a plain reader or from a file fails with \<open>e2\<close>, after the part was
    started and the bytes read so far were written into it;
  \<^item> the part for a plain reader or for a file cannot be started, with \<open>e2\<close>;

  then the iteration only records that error: the loop goes on over \<open>post\<close> from the
  state \<open>s2\<close> of the failed iteration with \<^verbatim>\<open>r.err\<close> set to it, runs to its end, keeps the
  parts written so far and sets the body. The builder's error after the call is the
  error of the last iteration of \<open>post\<close> that reported one, and the error of this field
  when none did. Both listings leave the same builder.
\<close>

theorem AttachFiles_continues_past_field_errors:
  assumes "\<forall>(field, values) \<in> set (pre @ post). values \<noteq> []"
    and "attach_loop l pre (err r) (loop_start l) = LoopDone e1 s1"
    and "(values = v0 # vs \<and> (\<forall>rd. v0 \<noteq> IReader rd) \<and>
            e2 = ErrorsNew ''value is not an interface io.Reader'' \<and> s2 = s1) \<or>
           (values = IReader rd # v1 # vs \<and> (\<forall>c. v1 \<noteq> IString c) \<and>
            e2 = ErrorsNew ''value is not a string'' \<and> s2 = s1\<lparr>cur_contentType := []\<rparr>) \<or>
           (values = IReader (Stream src) # vs \<and>
            assert_contentType values (cur_contentType s1) = (c, True) \<and>
            form_field_fault l (cur_writer s1) field = None \<and> fault src = Some e2 \<and>
            s2 = s1\<lparr>cur_contentType := c,
                    cur_writer := (cur_writer s1)
                      \<lparr>parts := parts (cur_writer s1) @ [FormField field (payload src)]\<rparr>\<rparr>) \<or>
           (values = IReader (OsFile name src) # vs \<and>
            assert_contentType values (cur_contentType s1) = (c, True) \<and>
            form_file_fault l (cur_writer s1) field (Base l name) [c] = None \<and>
            fault src = Some e2 \<and>
            s2 = s1\<lparr>cur_contentType := c,
                    cur_closeReaders := cur_closeReaders s1 @ [OsFile name src],
                    cur_writer := (cur_writer s1)
                      \<lparr>parts := parts (cur_writer s1) @
                                 [FormFile field (Base l name) [c] (payload src)]\<rparr>\<rparr>) \<or>
           (values = IReader (Stream src) # vs \<and>
            assert_contentType values (cur_contentType s1) = (c, True) \<and>
            form_field_fault l (cur_writer s1) field = Some e2 \<and>
            s2 = s1\<lparr>cur_contentType := c\<rparr>) \<or>
           (values = IReader (OsFile name src) # vs \<and>
            assert_contentType values (cur_contentType s1) = (c, True) \<and>
            form_file_fault l (cur_writer s1) field (Base l name) [c] = Some e2 \<and>
            s2 = s1\<lparr>cur_contentType := c,
                    cur_closeReaders := cur_closeReaders s1 @ [OsFile name src]\<rparr>)"
  shows "e1 = last_error (err r) (field_errors l pre (loop_start l)) \<and>
         attach_field l field values s1 = (s2, Some e2) \<and>
         attach_loop l (pre @ (field, values) # post) (err r) (loop_start l) =
           attach_loop l post (Some e2) s2 \<and>
         (\<exists>s3. attach_loop l post (Some e2) s2 =
                 LoopDone (last_error (Some e2) (field_errors l post s2)) s3 \<and>
               (\<exists>ps. parts (cur_writer s3) = parts (cur_writer s2) @ ps) \<and>
               body (fst (AttachFiles l r (pre @ (field, values) # post))) =
                 Some (BytesBuffer (Close (cur_writer s3)))) \<and>
         Error (fst (AttachFiles l r (pre @ (field, values) # post))) =
           last_error (Some e2) (field_errors l post s2) \<and>
         ((\<forall>x \<in> set (field_errors l post s2). x = None) \<longrightarrow>
            Error (fst (AttachFiles l r (pre @ (field, values) # post))) = Some e2) \<and>
         fst (AttachFiles_listing2 l r (pre @ (field, values) # post)) =
           fst (AttachFiles l r (pre @ (field, values) # post))"
proof -
  from assms(1) have p: "\<forall>(field, values) \<in> set pre. values \<noteq> []"
    and q: "\<forall>(field, values) \<in> set post. values \<noteq> []"
    by auto
  from attach_loop_completes [OF p, of l "err r" "loop_start l"] assms(2)
  have e1: "e1 = last_error (err r) (field_errors l pre (loop_start l))"
    by auto
  from attach_field_kinds [OF assms(3)]
  have step: "attach_field l field values s1 = (s2, Some e2)" and ne: "values \<noteq> []"
    by simp_all
  have go: "attach_loop l (pre @ (field, values) # post) (err r) (loop_start l) =
              attach_loop l post (Some e2) s2"
    by (rule attach_loop_after_field [OF assms(2) step ne])
  from attach_loop_completes [OF q, of l "Some e2" s2] obtain s3 where
    s3: "attach_loop l post (Some e2) s2 =
           LoopDone (last_error (Some e2) (field_errors l post s2)) s3"
    by blast
  have grow: "\<exists>ps. parts (cur_writer s3) = parts (cur_writer s2) @ ps"
    by (rule attach_loop_extends [OF s3])
  have bd: "body (fst (AttachFiles l r (pre @ (field, values) # post))) =
              Some (BytesBuffer (Close (cur_writer s3)))"
    using go s3 by (simp add: AttachFiles_def)
  have er: "Error (fst (AttachFiles l r (pre @ (field, values) # post))) =
              last_error (Some e2) (field_errors l post s2)"
    using go s3 by (simp add: AttachFiles_def Error_def)
  have quiet: "Error (fst (AttachFiles l r (pre @ (field, values) # post))) = Some e2"
    if "\<forall>x \<in> set (field_errors l post s2). x = None"
    using er last_error_no_later [OF that, of "Some e2"] by simp
  from e1 step go s3 grow bd er quiet
    AttachFiles_listings_agree [of l r "pre @ (field, values) # post"]
  show ?thesis by blast
qed

theorem AttachFiles_continues_past_field_errors_witness:
  "Error (fst (AttachFiles plain_lib (NewRequest ok_client)
           ([] @ (''a'', [IReader (Stream broken)]) # [(''c'', [IReader (Stream hello)])]))) =
     Some (External ''read: input/output error'') \<and>
   body (fst (AttachFiles plain_lib (NewRequest ok_client)
           ([] @ (''a'', [IReader (Stream broken)]) # [(''c'', [IReader (Stream hello)])]))) =
     Some (BytesBuffer \<lparr>boundary = ''7d1f3a'',
             parts = [FormField ''a'' ''par'', FormField ''c'' ''hello''], wclosed = True\<rparr>) \<and>
   Error (fst (AttachFiles plain_lib (NewRequest ok_client)
           ([(''a'', [IReader (Stream broken)])] @ (''b'', [IReader (Stream hello), IOther]) #
            [(''c'', [IReader (Stream hello)])]))) =
     Some (ErrorsNew ''value is not a string'')"
proof -
  let ?s0 = "loop_start plain_lib"
  let ?sa = "?s0\<lparr>cur_contentType := [],
                 cur_writer := (cur_writer ?s0)
                   \<lparr>parts := parts (cur_writer ?s0) @ [FormField ''a'' (payload broken)]\<rparr>\<rparr>"
  have ne1: "\<forall>(field, values) \<in> set ([] @ [(''c'', [IReader (Stream hello)])]). values \<noteq> []"
    by simp
  have st1: "attach_loop plain_lib [] (err (NewRequest ok_client)) ?s0 = LoopDone None ?s0"
    by (simp add: NewRequest_def)
  have k1: "[IReader (Stream broken)] = IReader (Stream broken) # [] \<and>
            assert_contentType [IReader (Stream broken)] (cur_contentType ?s0) = ([], True) \<and>
            form_field_fault plain_lib (cur_writer ?s0) ''a'' = None \<and>
            fault broken = Some (External ''read: input/output error'') \<and> ?sa = ?sa"
    by (simp add: loop_start_def plain_lib_def broken_def)
  note first = AttachFiles_continues_past_field_errors [of "[]" "[(''c'', [IReader (Stream hello)])]"
      plain_lib "NewRequest ok_client" None ?s0 "[IReader (Stream broken)]" _ _
      "External ''read: input/output error''" ?sa _ _ broken "[]" "''a''", OF ne1 st1]
  have quiet1: "\<forall>x \<in> set (field_errors plain_lib [(''c'', [IReader (Stream hello)])] ?sa). x = None"
    by (simp add: loop_start_def plain_lib_def NewWriter_def CreateFormField_def io_Copy_def
        hello_def broken_def)
  have sc: "attach_loop plain_lib [(''c'', [IReader (Stream hello)])]
              (Some (External ''read: input/output error'')) ?sa =
            LoopDone (Some (External ''read: input/output error''))
              (?sa\<lparr>cur_writer := \<lparr>boundary = ''7d1f3a'',
                  parts = [FormField ''a'' ''par'', FormField ''c'' ''hello''], wclosed = False\<rparr>\<rparr>)"
    by (simp add: loop_start_def plain_lib_def NewWriter_def CreateFormField_def io_Copy_def
        hello_def broken_def)
  from first k1 quiet1 sc have a:
    "Error (fst (AttachFiles plain_lib (NewRequest ok_client)
           ([] @ (''a'', [IReader (Stream broken)]) # [(''c'', [IReader (Stream hello)])]))) =
     Some (External ''read: input/output error'')"
    and b: "body (fst (AttachFiles plain_lib (NewRequest ok_client)
           ([] @ (''a'', [IReader (Stream broken)]) # [(''c'', [IReader (Stream hello)])]))) =
     Some (BytesBuffer \<lparr>boundary = ''7d1f3a'',
             parts = [FormField ''a'' ''par'', FormField ''c'' ''hello''], wclosed = True\<rparr>)"
    by (auto simp: Close_def)
  have ne2: "\<forall>(field, values) \<in> set ([(''a'', [IReader (Stream broken)])] @
               [(''c'', [IReader (Stream hello)])]). values \<noteq> []"
    by simp
  have st2: "attach_loop plain_lib [(''a'', [IReader (Stream broken)])]
               (err (NewRequest ok_client)) ?s0 =
             LoopDone (Some (External ''read: input/output error'')) ?sa"
    by (simp add: NewRequest_def loop_start_def plain_lib_def NewWriter_def CreateFormField_def
        io_Copy_def broken_def)
  have k2: "[IReader (Stream hello), IOther] = IReader (Stream hello) # IOther # [] \<and>
            (\<forall>c. IOther \<noteq> IString c) \<and>
            ErrorsNew ''value is not a string'' = ErrorsNew ''value is not a string'' \<and>
            ?sa\<lparr>cur_contentType := []\<rparr> = ?sa\<lparr>cur_contentType := []\<rparr>"
    by simp
  note second = AttachFiles_continues_past_field_errors [of "[(''a'', [IReader (Stream broken)])]"
      "[(''c'', [IReader (Stream hello)])]" plain_lib "NewRequest ok_client"
      "Some (External ''read: input/output error'')" ?sa "[IReader (Stream hello), IOther]"
      _ _ "ErrorsNew ''value is not a string''" "?sa\<lparr>cur_contentType := []\<rparr>"
      "Stream hello" IOther _ "[]" "''b''", OF ne2 st2]
  have quiet2: "\<forall>x \<in> set (field_errors plain_lib [(''c'', [IReader (Stream hello)])]
                  (?sa\<lparr>cur_contentType := []\<rparr>)). x = None"
    by (simp add: loop_start_def plain_lib_def NewWriter_def CreateFormField_def io_Copy_def
        hello_def broken_def)
  from second k2 quiet2 have c:
    "Error (fst (AttachFiles plain_lib (NewRequest ok_client)
           ([(''a'', [IReader (Stream broken)])] @ (''b'', [IReader (Stream hello), IOther]) #
            [(''c'', [IReader (Stream hello)])]))) =
     Some (ErrorsNew ''value is not a string'')"
    by blast
  from a b c show ?thesis by blast
qed


subsection \<open>AttachFiles: the content-type of a file field\<close>

text \<open>
  C10. \<^verbatim>\<open>contentType\<close> is declared outside the loop and assigned only for a list with
  a second element. For the mapping of two file fields, the first with the content-type
  \<open>c\<close> and the second with none, visited in this order, the part of the second field is
  started with the content-type \<open>c\<close> of the first; alone, the same field is started with
  the empty content-type.
\<close>

theorem AttachFiles_contentType_carried_over:
  assumes "\<forall>w field fileName ctype. form_file_fault l w field fileName ctype = None"
  shows "body (fst (AttachFiles l r [(f1, [IReader (OsFile n1 s1), IString c]),
                                     (f2, [IReader (OsFile n2 s2)])])) =
           Some (BytesBuffer \<lparr>boundary = new_boundary l,
                   parts = [FormFile f1 (Base l n1) [c] (payload s1),
                            FormFile f2 (Base l n2) [c] (payload s2)],
                   wclosed = True\<rparr>) \<and>
         body (fst (AttachFiles l r [(f2, [IReader (OsFile n2 s2)])])) =
           Some (BytesBuffer \<lparr>boundary = new_boundary l,
                   parts = [FormFile f2 (Base l n2) [[]] (payload s2)],
                   wclosed = True\<rparr>) \<and>
         fst (AttachFiles_listing2 l r [(f1, [IReader (OsFile n1 s1), IString c]),
                                        (f2, [IReader (OsFile n2 s2)])]) =
           fst (AttachFiles l r [(f1, [IReader (OsFile n1 s1), IString c]),
                                 (f2, [IReader (OsFile n2 s2)])])"
  using assms AttachFiles_listings_agree [of l r "[(f1, [IReader (OsFile n1 s1), IString c]),
                                 (f2, [IReader (OsFile n2 s2)])]"]
  by (simp add: AttachFiles_def loop_start_def NewWriter_def CreateFormFile_def io_Copy_def
      Close_def split: option.splits)


theorem AttachFiles_contentType_carried_over_witness:
  "body (fst (AttachFiles plain_lib (NewRequest ok_client)
            [(''a'', [IReader (OsFile ''/tmp/a.png'' hello), IString ''image/png'']),
             (''b'', [IReader (OsFile ''/tmp/b.txt'' hello)])])) =
     Some (BytesBuffer \<lparr>boundary = ''7d1f3a'',
             parts = [FormFile ''a'' ''a.png'' [''image/png''] ''hello'',
                      FormFile ''b'' ''b.txt'' [''image/png''] ''hello''],
             wclosed = True\<rparr>)"
proof -
  have nf: "\<forall>w field fileName ctype. form_file_fault plain_lib w field fileName ctype = None"
    by (simp add: plain_lib_def)
  show ?thesis
    using AttachFiles_contentType_carried_over [OF nf, of "NewRequest ok_client" "''a''"
        "''/tmp/a.png''" hello "''image/png''" "''b''" "''/tmp/b.txt''" hello]
    by (simp add: plain_lib_def path_Base_def hello_def)
qed

subsection \<open>Extra headers\<close>

lemma set_headers_first_values:
  "set_headers l (map (\<lambda>(key, val). (key, take 1 val)) h) h1 = set_headers l h h1"
  by (induction h arbitrary: h1) (auto split: list.splits)

lemma set_headers_lookup:
  assumes "\<forall>(key, val) \<in> set h. val \<noteq> []"
    and "distinct (map (\<lambda>kv. CanonicalMIMEHeaderKey l (fst kv)) h)"
  shows "\<exists>h2. set_headers l h h1 = Returned h2 \<and>
           (\<forall>key v vs. (key, v # vs) \<in> set h \<longrightarrow> h2 (CanonicalMIMEHeaderKey l key) = Some [v]) \<and>
           (\<forall>k. k \<notin> (\<lambda>kv. CanonicalMIMEHeaderKey l (fst kv)) ` set h \<longrightarrow> h2 k = h1 k)"
  using assms
proof (induction h arbitrary: h1)
  case Nil
  then show ?case by simp
next
  case (Cons kv h)
  obtain key val where kv: "kv = (key, val)" by (cases kv)
  with Cons.prems obtain v vs where val: "val = v # vs" by (cases val) auto
  from Cons.prems have rest: "\<forall>(key, val) \<in> set h. val \<noteq> []"
    and dist: "distinct (map (\<lambda>kv. CanonicalMIMEHeaderKey l (fst kv)) h)"
    and fresh: "CanonicalMIMEHeaderKey l key \<notin> (\<lambda>kv. CanonicalMIMEHeaderKey l (fst kv)) ` set h"
    using kv by auto
  from Cons.IH [OF rest dist, of "header_Set l h1 key v"] obtain h2 where
    h2: "set_headers l h (header_Set l h1 key v) = Returned h2"
    and look: "\<forall>key v vs. (key, v # vs) \<in> set h \<longrightarrow> h2 (CanonicalMIMEHeaderKey l key) = Some [v]"
    and frame: "\<forall>k. k \<notin> (\<lambda>kv. CanonicalMIMEHeaderKey l (fst kv)) ` set h \<longrightarrow>
                  h2 k = header_Set l h1 key v k"
    by blast
  have here: "h2 (CanonicalMIMEHeaderKey l key) = Some [v]"
    using frame fresh by (simp add: header_Set_def)
  have "set_headers l (kv # h) h1 = Returned h2"
    using h2 kv val by simp
  moreover have "\<forall>key' v' vs'. (key', v' # vs') \<in> set (kv # h) \<longrightarrow>
                   h2 (CanonicalMIMEHeaderKey l key') = Some [v']"
    using look here kv val by auto
  moreover have "\<forall>k. k \<notin> (\<lambda>kv. CanonicalMIMEHeaderKey l (fst kv)) ` set (kv # h) \<longrightarrow> h2 k = h1 k"
    using frame kv by (auto simp: header_Set_def)
  ultimately show ?case by blast
qed

lemma prepareRequest_first_map:
  "prepareRequest l r method uri (first # others) =
   prepareRequest l r method uri [map (\<lambda>(key, val). (key, take 1 val)) first]"
  by (simp add: prepareRequest_def set_headers_first_values Let_def del: One_nat_def
      split: sum.splits)

text \<open>
  C9. Of the header maps given to a dispatch only the first is read, and of each of
  its value lists only the first value: the prepared request, and the whole dispatch, are
  those of the call with the first map alone, its lists cut to their first value. When no
  list of the first map is empty (an empty list is an index out of range), its keys are
  canonically distinct and \<^verbatim>\<open>http.NewRequest\<close> accepts the method and URI, the request has
  under every key of the map exactly the first value of its list, and under every other
  key only what \<^verbatim>\<open>prepareRequest\<close> set itself (the content-type, if any).
\<close>

theorem extra_headers_first_map_first_values:
  "prepareRequest l r method uri (first # others) =
     prepareRequest l r method uri [map (\<lambda>(key, val). (key, take 1 val)) first] \<and>
   Do l r method uri (first # others) =
     Do l r method uri [map (\<lambda>(key, val). (key, take 1 val)) first] \<and>
   ((\<forall>(key, val) \<in> set first. val \<noteq> []) \<and>
    distinct (map (\<lambda>kv. CanonicalMIMEHeaderKey l (fst kv)) first) \<and>
    new_request_fault l method uri = None \<longrightarrow>
      (\<exists>req. prepareRequest l r method uri (first # others) = Returned (r\<lparr>Request := Some req\<rparr>) \<and>
         (\<forall>key v vs. (key, v # vs) \<in> set first \<longrightarrow>
            Header req (CanonicalMIMEHeaderKey l key) = Some [v]) \<and>
         (\<forall>k. k \<notin> (\<lambda>kv. CanonicalMIMEHeaderKey l (fst kv)) ` set first \<longrightarrow>
            Header req k =
              (if mime r \<noteq> [] \<and> k = CanonicalMIMEHeaderKey l ''Content-Type''
               then Some [mime r] else None))))"
proof -
  have inv: "prepareRequest l r method uri (first # others) =
     prepareRequest l r method uri [map (\<lambda>(key, val). (key, take 1 val)) first]"
    by (rule prepareRequest_first_map)
  have "Do l r method uri (first # others) =
     Do l r method uri [map (\<lambda>(key, val). (key, take 1 val)) first]"
    unfolding Do_def inv ..
  moreover have "\<exists>req. prepareRequest l r method uri (first # others) = Returned (r\<lparr>Request := Some req\<rparr>) \<and>
         (\<forall>key v vs. (key, v # vs) \<in> set first \<longrightarrow>
            Header req (CanonicalMIMEHeaderKey l key) = Some [v]) \<and>
         (\<forall>k. k \<notin> (\<lambda>kv. CanonicalMIMEHeaderKey l (fst kv)) ` set first \<longrightarrow>
            Header req k =
              (if mime r \<noteq> [] \<and> k = CanonicalMIMEHeaderKey l ''Content-Type''
               then Some [mime r] else None))"
    if ne: "\<forall>(key, val) \<in> set first. val \<noteq> []"
      and dist: "distinct (map (\<lambda>kv. CanonicalMIMEHeaderKey l (fst kv)) first)"
      and ok: "new_request_fault l method uri = None"
  proof -
    let ?h1 = "if mime r \<noteq> [] then header_Set l Map.empty ''Content-Type'' (mime r) else Map.empty"
    from set_headers_lookup [OF ne dist, of ?h1] obtain h2 where
      h2: "set_headers l first ?h1 = Returned h2"
      and look: "\<forall>key v vs. (key, v # vs) \<in> set first \<longrightarrow> h2 (CanonicalMIMEHeaderKey l key) = Some [v]"
      and frame: "\<forall>k. k \<notin> (\<lambda>kv. CanonicalMIMEHeaderKey l (fst kv)) ` set first \<longrightarrow> h2 k = ?h1 k"
      by blast
    let ?req = "\<lparr>Method = (if method = [] then ''GET'' else method), URL = uri,
                  RawQuery = params r, Header = h2, Body = body r\<rparr>"
    have pr: "prepareRequest l r method uri (first # others) = Returned (r\<lparr>Request := Some ?req\<rparr>)"
      using h2 ok by (auto simp: prepareRequest_def http_NewRequest_def split: if_splits)
    have l1: "\<forall>key v vs. (key, v # vs) \<in> set first \<longrightarrow>
                Header ?req (CanonicalMIMEHeaderKey l key) = Some [v]"
      using look by simp
    have l2: "\<forall>k. k \<notin> (\<lambda>kv. CanonicalMIMEHeaderKey l (fst kv)) ` set first \<longrightarrow>
            Header ?req k = (if mime r \<noteq> [] \<and> k = CanonicalMIMEHeaderKey l ''Content-Type''
               then Some [mime r] else None)"
      using frame by (simp add: header_Set_def)
    show ?thesis
    proof (intro exI conjI)
      show "prepareRequest l r method uri (first # others) = Returned (r\<lparr>Request := Some ?req\<rparr>)"
        by (fact pr)
      show "\<forall>key v vs. (key, v # vs) \<in> set first \<longrightarrow>
                Header ?req (CanonicalMIMEHeaderKey l key) = Some [v]"
        by (fact l1)
      show "\<forall>k. k \<notin> (\<lambda>kv. CanonicalMIMEHeaderKey l (fst kv)) ` set first \<longrightarrow>
            Header ?req k = (if mime r \<noteq> [] \<and> k = CanonicalMIMEHeaderKey l ''Content-Type''
               then Some [mime r] else None)"
        by (fact l2)
    qed
  qed
  ultimately show ?thesis using inv by blast
qed


theorem extra_headers_first_map_first_values_witness:
  "\<exists>req. prepareRequest plain_lib (NewRequest ok_client) ''GET'' ''http://example.test/x''
            [[(''X-A'', [''1'', ''2''])], [(''X-B'', [''3''])]] =
          Returned ((NewRequest ok_client)\<lparr>Request := Some req\<rparr>) \<and>
          Header req ''X-A'' = Some [''1''] \<and> Header req ''X-B'' = None"
proof -
  have pre: "(\<forall>(key, val) \<in> set [(''X-A'', [''1'', ''2''])]. val \<noteq> []) \<and>
      distinct (map (\<lambda>kv. CanonicalMIMEHeaderKey plain_lib (fst kv)) [(''X-A'', [''1'', ''2''])]) \<and>
      new_request_fault plain_lib ''GET'' ''http://example.test/x'' = None"
    by (simp add: plain_lib_def)
  from extra_headers_first_map_first_values [of plain_lib "NewRequest ok_client" "''GET''"
      "''http://example.test/x''" "[(''X-A'', [''1'', ''2''])]" "[[(''X-B'', [''3''])]]"] pre
  obtain req where
    pr: "prepareRequest plain_lib (NewRequest ok_client) ''GET'' ''http://example.test/x''
           [[(''X-A'', [''1'', ''2''])], [(''X-B'', [''3''])]] =
         Returned ((NewRequest ok_client)\<lparr>Request := Some req\<rparr>)"
    and look: "\<forall>key v vs. (key, v # vs) \<in> set [(''X-A'', [''1'', ''2''])] \<longrightarrow>
                 Header req (CanonicalMIMEHeaderKey plain_lib key) = Some [v]"
    and frame: "\<forall>k. k \<notin> (\<lambda>kv. CanonicalMIMEHeaderKey plain_lib (fst kv)) `
                        set [(''X-A'', [''1'', ''2''])] \<longrightarrow>
                  Header req k =
                    (if mime (NewRequest ok_client) \<noteq> [] \<and>
                        k = CanonicalMIMEHeaderKey plain_lib ''Content-Type''
                     then Some [mime (NewRequest ok_client)] else None)"
    by blast
  from look have a: "Header req ''X-A'' = Some [''1'']"
    by (simp add: plain_lib_def)
  from frame have b: "Header req ''X-B'' = None"
    by (simp add: plain_lib_def NewRequest_def)
  from pr a b show ?thesis by blast
qed

subsection \<open>The query string\<close>

text \<open>Escaping is undone by unescaping, and escaped text holds no separator.\<close>

lemma upperhex_digit:
  "n < 16 \<Longrightarrow> ishex (upperhex ! n) \<and> unhex (upperhex ! n) = n \<and>
     upperhex ! n \<notin> {CHR ''&'', CHR ''='', CHR '';''}"
proof -
  assume "n < 16"
  then have "n \<in> {0, 1, 2, 3, 4, 5, 6, 7, 8, 9, 10, 11, 12, 13, 14, 15}"
    by (simp only: insert_iff empty_iff) arith
  then show ?thesis
    by (elim insertE emptyE) (simp_all add: upperhex_def ishex_def unhex_def)
qed

lemma of_char_div16: "of_char c div 16 < (16::nat)"
proof -
  have "of_char c < (256::nat)" by simp
  then show ?thesis by arith
qed

lemma unescape_escape_byte:
  "unescape (escape_byte c @ t) =
     (case unescape t of Inl e \<Rightarrow> Inl e | Inr u \<Rightarrow> Inr (c # u))"
proof (cases "shouldEscape c")
  case False
  then have "c \<noteq> CHR ''%''" "c \<noteq> CHR ''+''"
    by (auto simp: shouldEscape_def)
  with False show ?thesis
    by (simp add: escape_byte_def)
next
  case True
  show ?thesis
  proof (cases "c = CHR '' ''")
    case True
    then show ?thesis by (simp add: escape_byte_def shouldEscape_def split: sum.splits)
  next
    case False
    have hi: "of_char c div 16 < (16::nat)" by (rule of_char_div16)
    have lo: "of_char c mod 16 < (16::nat)" by simp
    from upperhex_digit [OF hi] upperhex_digit [OF lo] False \<open>shouldEscape c\<close>
    show ?thesis
      by (simp add: escape_byte_def split: sum.splits)
  qed
qed

lemma unescape_QueryEscape: "unescape (QueryEscape s) = Inr s"
  by (induction s) (simp_all add: QueryEscape_def unescape_escape_byte)

lemma escape_byte_safe:
  "x \<in> set (escape_byte c) \<Longrightarrow> x \<notin> {CHR ''&'', CHR ''='', CHR '';''}"
proof -
  assume x: "x \<in> set (escape_byte c)"
  have hi: "of_char c div 16 < (16::nat)" by (rule of_char_div16)
  have lo: "of_char c mod 16 < (16::nat)" by simp
  from x upperhex_digit [OF hi] upperhex_digit [OF lo] show ?thesis
    by (auto simp: escape_byte_def shouldEscape_def split: if_splits)
qed

lemma QueryEscape_safe:
  "x \<in> set (QueryEscape s) \<Longrightarrow> x \<notin> {CHR ''&'', CHR ''='', CHR '';''}"
proof -
  assume "x \<in> set (QueryEscape s)"
  then obtain c where "x \<in> set (escape_byte c)"
    by (auto simp: QueryEscape_def)
  then show ?thesis
    by (rule escape_byte_safe)
qed

lemma Cut_found: "sep \<notin> set a \<Longrightarrow> Cut sep (a @ sep # b) = (a, b)"
  by (induction a) auto

lemma Cut_not_found: "sep \<notin> set a \<Longrightarrow> Cut sep a = (a, [])"
  by (induction a) auto


declare parseQuery.simps [simp del]

lemma parseQuery_Nil: "parseQuery m e [] = (m, e)"
  by (simp add: parseQuery.simps)

lemma encode_pair_safe: "CHR ''&'' \<notin> set (encode_pair kv) \<and> CHR '';'' \<notin> set (encode_pair kv)"
  using QueryEscape_safe [of "CHR ''&''"] QueryEscape_safe [of "CHR '';''"]
  by (auto simp: encode_pair_def)

lemma encode_pair_Cut:
  "Cut CHR ''='' (encode_pair kv) = (QueryEscape (fst kv), QueryEscape (snd kv))"
proof -
  have "CHR ''='' \<notin> set (QueryEscape (fst kv))"
    using QueryEscape_safe [of "CHR ''=''" "fst kv"] by auto
  then show ?thesis
    by (simp add: encode_pair_def Cut_found)
qed

lemma parseQuery_pair:
  assumes "Cut CHR ''&'' query = (encode_pair kv, rest)" and "query \<noteq> []"
  shows "parseQuery m e query = parseQuery (append_value m (fst kv) (snd kv)) e rest"
proof -
  have ne: "encode_pair kv \<noteq> []"
    by (simp add: encode_pair_def)
  show ?thesis
    using assms ne encode_pair_safe [of kv]
    by (subst parseQuery.simps)
       (simp add: encode_pair_Cut QueryUnescape_def unescape_QueryEscape)
qed

lemma parseQuery_join:
  "parseQuery m e (join_amp (map encode_pair kvs)) =
     (foldl (\<lambda>m kv. append_value m (fst kv) (snd kv)) m kvs, e)"
proof (induction kvs arbitrary: m)
  case Nil
  then show ?case by (simp add: parseQuery_Nil)
next
  case (Cons kv kvs)
  show ?case
  proof (cases kvs)
    case Nil
    have "Cut CHR ''&'' (encode_pair kv) = (encode_pair kv, [])"
      using encode_pair_safe [of kv] by (simp add: Cut_not_found)
    moreover have "encode_pair kv \<noteq> []"
      by (simp add: encode_pair_def)
    ultimately show ?thesis
      using Nil parseQuery_pair [of "encode_pair kv" kv "[]" m e]
      by (simp add: parseQuery_Nil)
  next
    case (Cons kv' kvs')
    have "Cut CHR ''&'' (encode_pair kv @ CHR ''&'' # join_amp (map encode_pair kvs)) =
            (encode_pair kv, join_amp (map encode_pair kvs))"
      using encode_pair_safe [of kv] by (simp add: Cut_found)
    then have "parseQuery m e (encode_pair kv @ CHR ''&'' # join_amp (map encode_pair kvs)) =
        parseQuery (append_value m (fst kv) (snd kv)) e (join_amp (map encode_pair kvs))"
      by (rule parseQuery_pair) simp
    then show ?thesis
      using Cons Cons.IH [of "append_value m (fst kv) (snd kv)"] by simp
  qed
qed


text \<open>Parsing what \<^verbatim>\<open>Encode\<close> wrote.\<close>

lemma Encode_pairs: "Encode v = join_amp (map encode_pair (pairs_of (sort_key fst v)))"
  by (simp add: Encode_def pairs_of_def map_concat comp_def case_prod_unfold encode_pair_def)

lemma append_value_fresh:
  "key \<notin> fst ` set m \<Longrightarrow> append_value m key v = m @ [(key, [v])]"
  by (induction m) auto

lemma append_value_last:
  "key \<notin> fst ` set m \<Longrightarrow> append_value (m @ [(key, vs)]) key v = m @ [(key, vs @ [v])]"
  by (induction m) auto

lemma foldl_append_values_last:
  "key \<notin> fst ` set m \<Longrightarrow>
   foldl (\<lambda>m kv. append_value m (fst kv) (snd kv)) (m @ [(key, ws)]) (map (Pair key) vs) =
     m @ [(key, ws @ vs)]"
  by (induction vs arbitrary: ws) (simp_all add: append_value_last)

lemma foldl_append_values_key:
  "key \<notin> fst ` set m \<Longrightarrow>
   foldl (\<lambda>m kv. append_value m (fst kv) (snd kv)) m (map (Pair key) vs) =
     (if vs = [] then m else m @ [(key, vs)])"
proof (cases vs)
  case Nil
  then show ?thesis by simp
next
  case (Cons v vs')
  assume "key \<notin> fst ` set m"
  then show ?thesis
    using Cons foldl_append_values_last [of key m "[v]" vs']
    by (simp add: append_value_fresh)
qed

lemma foldl_append_values_pairs:
  "distinct (map fst v) \<Longrightarrow> fst ` set m \<inter> fst ` set v = {} \<Longrightarrow>
   foldl (\<lambda>m kv. append_value m (fst kv) (snd kv)) m (pairs_of v) =
     m @ filter (\<lambda>kv. snd kv \<noteq> []) v"
proof (induction v arbitrary: m)
  case Nil
  then show ?case by (simp add: pairs_of_def)
next
  case (Cons kv v)
  obtain key vs where kv: "kv = (key, vs)" by (cases kv)
  from Cons.prems kv have fresh: "key \<notin> fst ` set m" and dist: "distinct (map fst v)"
    and later: "key \<notin> fst ` set v" and disj: "fst ` set m \<inter> fst ` set v = {}"
    by auto
  let ?m' = "if vs = [] then m else m @ [(key, vs)]"
  have disj': "fst ` set ?m' \<inter> fst ` set v = {}"
    using disj later by auto
  have "foldl (\<lambda>m kv. append_value m (fst kv) (snd kv)) m (pairs_of (kv # v)) =
        foldl (\<lambda>m kv. append_value m (fst kv) (snd kv)) ?m' (pairs_of v)"
    using foldl_append_values_key [OF fresh, of vs] by (simp add: pairs_of_def kv)
  also have "\<dots> = ?m' @ filter (\<lambda>kv. snd kv \<noteq> []) v"
    by (rule Cons.IH [OF dist disj'])
  finally show ?case
    by (simp add: kv)
qed

lemma distinct_map_insort_key:
  "distinct (map f (insort_key f x xs)) \<longleftrightarrow> f x \<notin> f ` set xs \<and> distinct (map f xs)"
  by (induction xs) (auto simp: set_insort_key)

lemma distinct_map_sort_key: "distinct (map f (sort_key f xs)) \<longleftrightarrow> distinct (map f xs)"
  by (induction xs) (simp_all add: distinct_map_insort_key)

lemma ParseQuery_Encode:
  assumes "distinct (map fst v)"
  shows "ParseQuery (Encode v) = (filter (\<lambda>kv. snd kv \<noteq> []) (sort_key fst v), None)"
proof -
  have d: "distinct (map fst (sort_key fst v))"
    using assms by (simp add: distinct_map_sort_key)
  have "ParseQuery (Encode v) =
          (foldl (\<lambda>m kv. append_value m (fst kv) (snd kv)) [] (pairs_of (sort_key fst v)), None)"
    by (simp add: ParseQuery_def Encode_pairs parseQuery_join)
  then show ?thesis
    using foldl_append_values_pairs [OF d, of "[]"] by simp
qed

lemma map_of_sort_key:
  "distinct (map fst v) \<Longrightarrow> map_of (sort_key fst v) = map_of v"
  by (simp add: map_of_inject_set distinct_map_sort_key)


text \<open>A dispatch without a recorded error sends a request carrying \<^verbatim>\<open>r.params\<close>.\<close>

lemma set_headers_returns:
  "\<forall>kv \<in> set h. snd kv \<noteq> [] \<Longrightarrow> \<exists>h2. set_headers l h h1 = Returned h2"
  by (induction h arbitrary: h1) (auto split: list.splits)

lemma prepareRequest_returns:
  assumes "new_request_fault l method uri = None"
    and "\<forall>h \<in> set (take 1 headers). \<forall>kv \<in> set h. snd kv \<noteq> []"
  shows "\<exists>r1 req. prepareRequest l r method uri headers = Returned r1 \<and>
           Request r1 = Some req \<and> RawQuery req = params r \<and>
           err r1 = err r \<and> cookies r1 = cookies r \<and> client r1 = client r"
proof (cases headers)
  case Nil
  with assms(1) show ?thesis
    by (simp add: prepareRequest_def http_NewRequest_def)
next
  case (Cons first others)
  with assms(2) have "\<forall>kv \<in> set first. snd kv \<noteq> []" by simp
  from set_headers_returns [OF this] obtain h2 where
    "set_headers l first (if mime r \<noteq> [] then header_Set l Map.empty ''Content-Type'' (mime r)
                          else Map.empty) = Returned h2"
    by blast
  with assms(1) Cons show ?thesis
    by (auto simp: prepareRequest_def http_NewRequest_def split: if_splits)
qed

lemma RawQuery_AddCookies: "RawQuery (fold (AddCookie l) cs req) = RawQuery req"
  by (induction cs arbitrary: req) (simp_all add: AddCookie_def Let_def)

lemma prepareCookies_returns:
  "Request r = Some req \<Longrightarrow>
   \<exists>r2 req'. prepareCookies l r = Returned r2 \<and> Request r2 = Some req' \<and>
      RawQuery req' = RawQuery req \<and> err r2 = err r \<and> client r2 = client r"
  by (cases "cookies r = []") (simp_all add: prepareCookies_def RawQuery_AddCookies)

lemma Do_sends_params:
  assumes "err r = None"
    and "new_request_fault l method uri = None"
    and "\<forall>h \<in> set (take 1 headers). \<forall>kv \<in> set h. snd kv \<noteq> []"
  shows "\<exists>resp r' req.
           Do l r method uri headers = (Returned (resp, r'), ClientDo req # closeReader (body r)) \<and>
           Request r' = Some req \<and> RawQuery req = params r"
proof -
  from prepareRequest_returns [OF assms(2,3), of r] obtain r1 req1 where
    p1: "prepareRequest l r method uri headers = Returned r1"
    and s1: "Request r1 = Some req1" and q1: "RawQuery req1 = params r"
    and e1: "err r1 = err r"
    by blast
  from prepareCookies_returns [OF s1, of l] obtain r2 req2 where
    p2: "prepareCookies l r1 = Returned r2" and s2: "Request r2 = Some req2"
    and q2: "RawQuery req2 = RawQuery req1" and e2: "err r2 = err r1"
    by blast
  show ?thesis
    using assms(1) p1 p2 s2 q1 q2 e1 e2 by (simp add: Do_def)
qed

text \<open>
  C7. For a builder without a recorded error, a multi-map \<open>q\<close> with each key once (a Go
  map), a method and URI that \<^verbatim>\<open>http.NewRequest\<close> accepts and extra headers without an
  empty value list, \<^verbatim>\<open>WithQuery(q)\<close> followed by \<^verbatim>\<open>Do\<close> sends the client exactly one request,
  whose \<^verbatim>\<open>URL.RawQuery\<close> is \<^verbatim>\<open>q.Encode()\<close>; \<^verbatim>\<open>url.ParseQuery\<close> of it succeeds and gives the
  entries of \<open>q\<close> with a value, in key order. When no value list of \<open>q\<close> is empty, this is
  \<open>q\<close> itself: the same map.
\<close>

theorem WithQuery_round_trip:
  assumes "err r = None"
    and "distinct (map fst q)"
    and "new_request_fault l method uri = None"
    and "\<forall>h \<in> set (take 1 headers). \<forall>kv \<in> set h. snd kv \<noteq> []"
  shows "\<exists>resp r' req.
           Do l (WithQuery r q) method uri headers =
             (Returned (resp, r'), ClientDo req # closeReader (body r)) \<and>
           Request r' = Some req \<and>
           RawQuery req = Encode q \<and>
           ParseQuery (RawQuery req) = (filter (\<lambda>kv. snd kv \<noteq> []) (sort_key fst q), None) \<and>
           ((\<forall>kv \<in> set q. snd kv \<noteq> []) \<longrightarrow>
              ParseQuery (RawQuery req) = (sort_key fst q, None) \<and>
              map_of (fst (ParseQuery (RawQuery req))) = map_of q)"
proof -
  have e: "err (WithQuery r q) = None"
    using assms(1) by (simp add: WithQuery_def)
  from Do_sends_params [OF e assms(3,4)] obtain resp r' req where
    d: "Do l (WithQuery r q) method uri headers =
          (Returned (resp, r'), ClientDo req # closeReader (body (WithQuery r q)))"
    and rq: "Request r' = Some req" and raw: "RawQuery req = params (WithQuery r q)"
    by blast
  have raw': "RawQuery req = Encode q"
    using raw by (simp add: WithQuery_def)
  have dec: "ParseQuery (RawQuery req) = (filter (\<lambda>kv. snd kv \<noteq> []) (sort_key fst q), None)"
    unfolding raw' by (rule ParseQuery_Encode [OF assms(2)])
  have full: "ParseQuery (RawQuery req) = (sort_key fst q, None) \<and>
              map_of (fst (ParseQuery (RawQuery req))) = map_of q"
    if "\<forall>kv \<in> set q. snd kv \<noteq> []"
  proof -
    from that have "filter (\<lambda>kv. snd kv \<noteq> []) (sort_key fst q) = sort_key fst q"
      by (simp add: filter_id_conv)
    with dec show ?thesis
      by (simp add: map_of_sort_key [OF assms(2)])
  qed
  from d have d': "Do l (WithQuery r q) method uri headers =
          (Returned (resp, r'), ClientDo req # closeReader (body r))"
    by (simp add: WithQuery_def)
  from d' rq raw' dec full show ?thesis by blast
qed

theorem WithQuery_round_trip_witness:
  "\<exists>resp r' req.
     Do plain_lib (WithQuery (NewRequest ok_client) sample_query) ''GET'' ''http://example.test/x'' [] =
       (Returned (resp, r'), [ClientDo req]) \<and>
     RawQuery req = ''lang=go&q=a+b&q=c%26d'' \<and>
     ParseQuery (RawQuery req) = ([(''lang'', [''go'']), (''q'', [''a b'', ''c&d''])], None)"
proof -
  have a: "err (NewRequest ok_client) = None" by (simp add: NewRequest_def)
  have b: "distinct (map fst sample_query)" by (simp add: sample_query_def)
  have c: "new_request_fault plain_lib ''GET'' ''http://example.test/x'' = None"
    by (simp add: plain_lib_def)
  have d: "\<forall>h \<in> set (take 1 ([] :: (string \<times> string list) list list)). \<forall>kv \<in> set h. snd kv \<noteq> []"
    by simp
  have ne: "\<forall>kv \<in> set sample_query. snd kv \<noteq> []" by (simp add: sample_query_def)
  have enc: "Encode sample_query = ''lang=go&q=a+b&q=c%26d''"
    by (simp add: sample_query_def Encode_def QueryEscape_def escape_byte_def shouldEscape_def
        upperhex_def)
  have srt: "sort_key fst sample_query = [(''lang'', [''go'']), (''q'', [''a b'', ''c&d''])]"
    by (simp add: sample_query_def)
  have cl: "closeReader (body (NewRequest ok_client)) = []"
    by (simp add: NewRequest_def closeReader_def)
  from WithQuery_round_trip [OF a b c d] ne obtain resp r' req where
    "Do plain_lib (WithQuery (NewRequest ok_client) sample_query) ''GET'' ''http://example.test/x'' [] =
       (Returned (resp, r'), ClientDo req # closeReader (body (NewRequest ok_client)))"
    and "RawQuery req = Encode sample_query"
    and "ParseQuery (RawQuery req) = (sort_key fst sample_query, None)"
    by blast
  then show ?thesis
    unfolding enc srt cl by blast
qed


end
